theory Spec2Isabelle
  imports Main
begin

text \<open>
  The order controller of the shop backend: \<open>createOrder\<close>, \<open>initiateCheckout\<close> (the
  checkout preview), \<open>getOrder\<close> and \<open>cancelOrder\<close>, as functions on an explicit data
  store, with the arithmetic of the JavaScript numbers they compute with.
\<close>

section \<open>JavaScript numbers\<close>

text \<open>
  The order controller computes money with JavaScript numbers, which are IEEE 754
  binary64 values. A finite number is kept as \<open>Finite m e\<close>, standing for the
  rational \<open>m * 2\<^sup>e\<close>; every operation rounds its exact result to the nearest
  binary64 value, ties to the even mantissa. The sign of zero is not kept: none of
  the operations used by the controller (\<open>+\<close>, \<open>*\<close>, \<open>>=\<close>, \<open>toFixed\<close>, truthiness)
  tells \<open>-0\<close> from \<open>0\<close>.
\<close>

datatype jsnum = Finite int int | PInf | NInf | NaN

function bitlen :: "int \<Rightarrow> int" where
  "bitlen n = (if n \<le> 0 then 0 else 1 + bitlen (n div 2))"
  by pat_completeness auto
termination
  by (relation "measure nat") auto

declare bitlen.simps [simp del]

definition pow2 :: "int \<Rightarrow> int" where
  "pow2 k = 2 ^ nat k"

text \<open>\<open>ilog2 a q\<close> is the binary exponent of the positive rational \<open>a / q\<close>.\<close>

definition ilog2 :: "int \<Rightarrow> int \<Rightarrow> int" where
  "ilog2 a q =
     (let d = bitlen a - bitlen q
      in if q * pow2 d \<le> a * pow2 (- d) then d else d - 1)"

definition round_half_even :: "int \<Rightarrow> int \<Rightarrow> int" where
  "round_half_even n d =
     (let f = n div d; r = n mod d
      in if 2 * r < d then f
         else if d < 2 * r then f + 1
         else if even f then f else f + 1)"

text \<open>
  \<open>round_double neg a q\<close> is the binary64 value nearest to the rational \<open>a / q\<close>
  (\<open>a \<ge> 0\<close>, \<open>q > 0\<close>), negated when \<open>neg\<close>: 53 bits of mantissa, exponents of the
  least significant bit from \<open>-1074\<close> (subnormal numbers) to \<open>971\<close>, infinity beyond.
\<close>

definition round_double :: "bool \<Rightarrow> int \<Rightarrow> int \<Rightarrow> jsnum" where
  "round_double neg a q =
     (if a = 0 then Finite 0 0
      else
        let e = max (ilog2 a q) (- 1022) - 52;
            m = round_half_even (a * pow2 (- e)) (q * pow2 e);
            e' = (if m = pow2 53 then e + 1 else e);
            m' = (if m = pow2 53 then pow2 52 else m)
        in if m' = 0 then Finite 0 0
           else if 971 < e' then (if neg then NInf else PInf)
           else Finite (if neg then - m' else m') e')"

definition round_dyadic :: "int \<Rightarrow> int \<Rightarrow> jsnum" where
  "round_dyadic s e = round_double (s < 0) (\<bar>s\<bar> * pow2 e) (pow2 (- e))"

text \<open>An integer used as a number, and the decimal literal \<open>n / 10\<^sup>k\<close>.\<close>

definition num :: "int \<Rightarrow> jsnum" where
  "num n = round_double (n < 0) \<bar>n\<bar> 1"

definition lit :: "int \<Rightarrow> nat \<Rightarrow> jsnum" where
  "lit n k = round_double (n < 0) \<bar>n\<bar> (10 ^ k)"

fun js_add :: "jsnum \<Rightarrow> jsnum \<Rightarrow> jsnum" where
  "js_add (Finite m1 e1) (Finite m2 e2) =
     (let e = min e1 e2
      in round_dyadic (m1 * pow2 (e1 - e) + m2 * pow2 (e2 - e)) e)"
| "js_add NaN _ = NaN"
| "js_add _ NaN = NaN"
| "js_add PInf NInf = NaN"
| "js_add NInf PInf = NaN"
| "js_add PInf _ = PInf"
| "js_add NInf _ = NInf"
| "js_add _ PInf = PInf"
| "js_add _ NInf = NInf"

definition js_sign :: "jsnum \<Rightarrow> int" where
  "js_sign x = (case x of Finite m e \<Rightarrow> sgn m | PInf \<Rightarrow> 1 | NInf \<Rightarrow> - 1 | NaN \<Rightarrow> 0)"

fun js_mul :: "jsnum \<Rightarrow> jsnum \<Rightarrow> jsnum" where
  "js_mul (Finite m1 e1) (Finite m2 e2) = round_dyadic (m1 * m2) (e1 + e2)"
| "js_mul NaN _ = NaN"
| "js_mul _ NaN = NaN"
| "js_mul x y =
     (let s = js_sign x * js_sign y
      in if s = 0 then NaN else if 0 < s then PInf else NInf)"

fun js_ge :: "jsnum \<Rightarrow> jsnum \<Rightarrow> bool" where
  "js_ge (Finite m1 e1) (Finite m2 e2) =
     (let e = min e1 e2 in m2 * pow2 (e2 - e) \<le> m1 * pow2 (e1 - e))"
| "js_ge NaN _ = False"
| "js_ge _ NaN = False"
| "js_ge PInf _ = True"
| "js_ge _ NInf = True"
| "js_ge _ _ = False"

text \<open>
  \<open>x.toFixed(2)\<close>: for a finite \<open>x\<close> below \<open>10\<^sup>2\<^sup>1\<close> in magnitude, the integer \<open>n\<close>
  for which \<open>n / 100\<close> is nearest to the exact value of \<open>x\<close>, the larger \<open>n\<close> of two.
  \<open>Fixed2 neg n\<close> stands for the string of \<open>n\<close> hundredths with two fraction digits,
  behind a minus sign when \<open>neg\<close>. Any other number is printed as \<open>String(x)\<close>.
\<close>

datatype fixed2 = Fixed2 bool int | NumberString jsnum

definition toFixed2 :: "jsnum \<Rightarrow> fixed2" where
  "toFixed2 x =
     (case x of
        Finite m e \<Rightarrow>
          (if 10 ^ 21 * pow2 (- e) \<le> \<bar>m\<bar> * pow2 e then NumberString x
           else Fixed2 (m < 0) ((200 * \<bar>m\<bar> * pow2 e + pow2 (- e)) div (2 * pow2 (- e))))
      | _ \<Rightarrow> NumberString x)"

text \<open>\<open>parseFloat\<close> of a string that \<open>toFixed(2)\<close> printed.\<close>

definition parseFloat_fixed :: "fixed2 \<Rightarrow> jsnum" where
  "parseFloat_fixed s =
     (case s of Fixed2 neg n \<Rightarrow> round_double neg n 100 | NumberString x \<Rightarrow> x)"

text \<open>
  The values of the columns \<open>price\<close> and \<open>salePrice\<close>. The database schema is not part
  of the sources, so both column types of the ORM are covered: a float column is read
  as a number, a decimal column as a decimal object (\<open>JDecimal n k\<close> is \<open>n / 10\<^sup>k\<close>); a
  nullable column may be \<open>null\<close>. An object is truthy whatever its value.
\<close>

datatype jsval = JNull | JNumber jsnum | JDecimal int nat

fun truthy :: "jsval \<Rightarrow> bool" where
  "truthy JNull = False"
| "truthy (JNumber (Finite m e)) = (m \<noteq> 0)"
| "truthy (JNumber NaN) = False"
| "truthy (JNumber _) = True"
| "truthy (JDecimal n k) = True"

definition js_or :: "jsval \<Rightarrow> jsval \<Rightarrow> jsval" where
  "js_or a b = (if truthy a then a else b)"

fun parseFloat :: "jsval \<Rightarrow> jsnum" where
  "parseFloat JNull = NaN"
| "parseFloat (JNumber x) = x"
| "parseFloat (JDecimal n k) = lit n k"

text \<open>\<open>String(n)\<close> for an integer number \<open>n\<close>, as a template literal prints it.\<close>

definition digit_char :: "int \<Rightarrow> char" where
  "digit_char d = char_of (48 + d)"

function digits :: "int \<Rightarrow> string" where
  "digits n = (if n < 10 then [digit_char n] else digits (n div 10) @ [digit_char (n mod 10)])"
  by pat_completeness auto
termination
  by (relation "measure nat") auto

declare digits.simps [simp del]

definition int_string :: "int \<Rightarrow> string" where
  "int_string n = (if n < 0 then CHR ''-'' # digits (- n) else digits n)"

section \<open>The data store\<close>

text \<open>
  One record per table, with the columns the order controller reads or writes, and the
  store as the list of rows of each table. Identifiers are strings (route parameters
  are passed to the queries as they arrive). Stock and quantities are integer columns,
  taken without a bound. A row keeps the numbers the controller passes to \<open>create\<close>:
  the column types are declared in the schema, which is not part of the sources, so no
  rounding on insertion is modelled. A query fails only in the ways written out below;
  a lost connection or a violated constraint of the schema is outside the model.
\<close>

type_synonym ident = string

record product =
  p_id :: ident
  p_name :: string
  p_price :: jsval
  p_salePrice :: jsval
  p_stock :: int
  p_isActive :: bool

record cartItem =
  ci_userId :: ident
  ci_productId :: ident
  ci_quantity :: int

record address =
  a_id :: ident
  a_userId :: ident
  a_name :: string
  a_phone :: string
  a_street :: string
  a_city :: string
  a_state :: string
  a_pincode :: string
  a_country :: string
  a_isDefault :: bool

record order =
  o_id :: ident
  o_userId :: ident
  o_addressId :: ident
  o_orderNumber :: string
  o_paymentMethod :: string
  o_subtotal :: jsnum
  o_shippingCost :: jsnum
  o_tax :: jsnum
  o_total :: jsnum
  o_notes :: "string option"
  o_status :: string
  o_paymentStatus :: string

record orderItem =
  oi_orderId :: ident
  oi_productId :: ident
  oi_quantity :: int
  oi_price :: jsnum
  oi_total :: jsnum

record db =
  products :: "product list"
  cartItems :: "cartItem list"
  addresses :: "address list"
  orders :: "order list"
  orderItems :: "orderItem list"

text \<open>
  What a request does not determine: the clock (\<open>Date.now()\<close>), the random suffix
  (\<open>Math.floor(Math.random() * 1000)\<close>, a value from 0 to 999) and the identifiers
  the store gives to the rows it inserts.
\<close>

record env =
  now :: int
  random1000 :: int
  newOrderId :: ident
  newAddressId :: ident

record body =
  b_addressId :: ident
  b_paymentMethod :: string
  b_paymentIntentId :: "string option"
  b_notes :: "string option"

section \<open>Responses and exceptions\<close>

text \<open>
  \<open>ApiError message status\<close> is \<open>ApiResponse.error(res, message, status)\<close>. The
  controller has no error classes: the error kinds of the specification are the
  responses below.
\<close>

datatype api_error = ApiError string nat

definition EmptyCartError :: api_error where
  "EmptyCartError = ApiError ''Cart is empty'' 400"

definition ProductUnavailableError :: "string \<Rightarrow> api_error" where
  "ProductUnavailableError n = ApiError (''Product '' @ n @ '' is no longer available'') 400"

definition InsufficientStockError :: "string \<Rightarrow> api_error" where
  "InsufficientStockError n = ApiError (''Insufficient stock for '' @ n) 400"

definition OrderNotFound :: api_error where
  "OrderNotFound = ApiError ''Order not found'' 404"

definition InvalidStateTransitionError :: api_error where
  "InvalidStateTransitionError = ApiError ''Order cannot be cancelled'' 400"

text \<open>
  The exceptions the modelled code can raise: reading a property of \<open>null\<close>, and an
  update of a row that does not exist. The message texts are those of the runtime and
  of the ORM; no property below depends on them.
\<close>

datatype exn = TypeError | RecordNotFound

fun message :: "exn \<Rightarrow> string" where
  "message TypeError = ''Cannot read properties of null''"
| "message RecordNotFound = ''Record to update not found.''"

text \<open>The three ways a loop of a handler ends: normally, by \<open>return\<close>, by an exception.\<close>

datatype 'a flow = Value 'a | Responded api_error | Thrown exn

section \<open>Queries\<close>

text \<open>
  \<open>cartItem.findMany({where: {userId}, include: {product}})\<close>: the rows of the user's
  cart, each with the product row it refers to.
\<close>

type_synonym line = "cartItem \<times> product option"

definition findProduct :: "db \<Rightarrow> ident \<Rightarrow> product option" where
  "findProduct d pid = find (\<lambda>p. p_id p = pid) (products d)"

definition userCart :: "db \<Rightarrow> ident \<Rightarrow> cartItem list" where
  "userCart d userId = filter (\<lambda>ci. ci_userId ci = userId) (cartItems d)"

definition findCartItems :: "db \<Rightarrow> ident \<Rightarrow> line list" where
  "findCartItems d userId = map (\<lambda>ci. (ci, findProduct d (ci_productId ci))) (userCart d userId)"

definition findAddress :: "db \<Rightarrow> ident \<Rightarrow> address option" where
  "findAddress d aid = find (\<lambda>a. a_id a = aid) (addresses d)"

text \<open>\<open>order.findFirst({where: {id, userId}})\<close>.\<close>

definition findOrder :: "db \<Rightarrow> ident \<Rightarrow> ident \<Rightarrow> order option" where
  "findOrder d oid userId = find (\<lambda>x. o_id x = oid \<and> o_userId x = userId) (orders d)"

definition itemsOf :: "db \<Rightarrow> ident \<Rightarrow> orderItem list" where
  "itemsOf d oid = filter (\<lambda>oi. oi_orderId oi = oid) (orderItems d)"

text \<open>
  \<open>product.update({where: {id}, data: {stock: ...}})\<close>: the row with this identifier
  gets its stock changed; the update raises when there is no such row. Identifiers
  are primary keys, so at most one row matches.
\<close>

definition updateStock :: "ident \<Rightarrow> (int \<Rightarrow> int) \<Rightarrow> product list \<Rightarrow> product list option" where
  "updateStock pid f ps =
     (if pid \<in> set (map p_id ps)
      then Some (map (\<lambda>p. if p_id p = pid then p\<lparr>p_stock := f (p_stock p)\<rparr> else p) ps)
      else None)"

section \<open>createOrder\<close>

text \<open>The unit price of a cart line: \<open>item.product.salePrice || item.product.price\<close>, parsed.\<close>

definition unitPrice :: "product \<Rightarrow> jsnum" where
  "unitPrice p = parseFloat (js_or (p_salePrice p) (p_price p))"

definition lineTotal :: "cartItem \<Rightarrow> product \<Rightarrow> jsnum" where
  "lineTotal item p = js_mul (unitPrice p) (num (ci_quantity item))"

text \<open>The validation and subtotal loop of \<open>createOrder\<close>.\<close>

fun subtotalLoop :: "line list \<Rightarrow> jsnum \<Rightarrow> jsnum flow" where
  "subtotalLoop [] subtotal = Value subtotal"
| "subtotalLoop ((item, None) # rest) subtotal = Thrown TypeError"
| "subtotalLoop ((item, Some p) # rest) subtotal =
     (if \<not> p_isActive p then Responded (ProductUnavailableError (p_name p))
      else if p_stock p < ci_quantity item then Responded (InsufficientStockError (p_name p))
      else subtotalLoop rest (js_add subtotal (lineTotal item p)))"

text \<open>
  Shipping cost, tax and total as \<open>createOrder\<close> and \<open>initiateCheckout\<close> both compute
  them from the unrounded subtotal: \<open>subtotal >= 999 ? 0 : 50\<close>, \<open>subtotal * 0.18\<close> and
  \<open>subtotal + shippingCost + tax\<close>.
\<close>

definition shippingCostOf :: "jsnum \<Rightarrow> jsnum" where
  "shippingCostOf subtotal = (if js_ge subtotal (num 999) then num 0 else num 50)"

definition taxOf :: "jsnum \<Rightarrow> jsnum" where
  "taxOf subtotal = js_mul subtotal (lit 18 2)"

definition totalOf :: "jsnum \<Rightarrow> jsnum" where
  "totalOf subtotal = js_add (js_add subtotal (shippingCostOf subtotal)) (taxOf subtotal)"

text \<open>The template literal \<open>ORD${Date.now()}${Math.floor(Math.random() * 1000)}\<close>.\<close>

definition orderNumberOf :: "env \<Rightarrow> string" where
  "orderNumberOf e = ''ORD'' @ int_string (now e) @ int_string (random1000 e)"

definition defaultAddress :: "ident \<Rightarrow> ident \<Rightarrow> address" where
  "defaultAddress aid userId =
     \<lparr>a_id = aid, a_userId = userId, a_name = ''John Doe'', a_phone = ''9876543210'',
      a_street = ''123 Main Street, Apartment 4B'', a_city = ''Mumbai'',
      a_state = ''Maharashtra'', a_pincode = ''400001'', a_country = ''India'',
      a_isDefault = True\<rparr>"

text \<open>The address step: the given address if a row has this identifier, a new row otherwise.\<close>

definition resolveAddress :: "env \<Rightarrow> db \<Rightarrow> ident \<Rightarrow> ident \<Rightarrow> ident \<times> db" where
  "resolveAddress e d userId aid =
     (case findAddress d aid of
        Some existingAddress \<Rightarrow> (aid, d)
      | None \<Rightarrow>
          (newAddressId e,
           d\<lparr>addresses := addresses d @ [defaultAddress (newAddressId e) userId]\<rparr>))"

text \<open>
  The row of \<open>order.create\<close>: every amount is printed with \<open>toFixed(2)\<close> and parsed
  back; \<open>notes || null\<close> turns an absent or empty note into \<open>null\<close>.
\<close>

definition newOrderOf :: "env \<Rightarrow> ident \<Rightarrow> body \<Rightarrow> ident \<Rightarrow> jsnum \<Rightarrow> order" where
  "newOrderOf e userId b validAddressId subtotal =
     \<lparr>o_id = newOrderId e, o_userId = userId, o_addressId = validAddressId,
      o_orderNumber = orderNumberOf e, o_paymentMethod = b_paymentMethod b,
      o_subtotal = parseFloat_fixed (toFixed2 subtotal),
      o_shippingCost = parseFloat_fixed (toFixed2 (shippingCostOf subtotal)),
      o_tax = parseFloat_fixed (toFixed2 (taxOf subtotal)),
      o_total = parseFloat_fixed (toFixed2 (totalOf subtotal)),
      o_notes = (case b_notes b of None \<Rightarrow> None | Some n \<Rightarrow> if n = [] then None else Some n),
      o_status = (if b_paymentMethod b = ''COD'' then ''CONFIRMED'' else ''PENDING''),
      o_paymentStatus = ''PENDING''\<rparr>"

text \<open>The row that \<open>orderItem.create\<close> inserts for a cart line.\<close>

definition orderItemData :: "ident \<Rightarrow> cartItem \<Rightarrow> product \<Rightarrow> orderItem" where
  "orderItemData oid item p =
     \<lparr>oi_orderId = oid, oi_productId = ci_productId item, oi_quantity = ci_quantity item,
      oi_price = unitPrice p, oi_total = lineTotal item p\<rparr>"

fun createItems :: "ident \<Rightarrow> line list \<Rightarrow> exn + orderItem list" where
  "createItems oid [] = Inr []"
| "createItems oid ((item, None) # rest) = Inl TypeError"
| "createItems oid ((item, Some p) # rest) =
     (case createItems oid rest of
        Inl ex \<Rightarrow> Inl ex
      | Inr ois \<Rightarrow> Inr (orderItemData oid item p # ois))"

text \<open>The stock updates of the transaction, one per cart line.\<close>

fun decrementLoop :: "line list \<Rightarrow> product list \<Rightarrow> product list option" where
  "decrementLoop [] ps = Some ps"
| "decrementLoop ((item, _) # rest) ps =
     (case updateStock (ci_productId item) (\<lambda>s. s - ci_quantity item) ps of
        None \<Rightarrow> None
      | Some ps' \<Rightarrow> decrementLoop rest ps')"

text \<open>The body of the transaction; \<open>Inl\<close> is an exception, which rolls everything back.\<close>

definition createOrderTx :: "env \<Rightarrow> ident \<Rightarrow> body \<Rightarrow> ident \<Rightarrow> line list \<Rightarrow> jsnum \<Rightarrow> db \<Rightarrow> exn + order \<times> db" where
  "createOrderTx e userId b validAddressId cart subtotal d =
     (let newOrder = newOrderOf e userId b validAddressId subtotal
      in case createItems (o_id newOrder) cart of
           Inl ex \<Rightarrow> Inl ex
         | Inr ois \<Rightarrow>
             (case decrementLoop cart (products d) of
                None \<Rightarrow> Inl RecordNotFound
              | Some ps \<Rightarrow>
                  Inr (newOrder,
                       d\<lparr>orders := orders d @ [newOrder],
                         orderItems := orderItems d @ ois,
                         products := ps,
                         cartItems := filter (\<lambda>ci. ci_userId ci \<noteq> userId) (cartItems d)\<rparr>)))"

definition createOrderFailed :: "exn \<Rightarrow> api_error" where
  "createOrderFailed ex = ApiError (''Failed to create order: '' @ message ex) 500"

text \<open>
  \<open>createOrder\<close>. The validation schema is not part of the sources: it is the parameter
  \<open>createOrderSchema\<close>, giving the message of the first violation, if any.
\<close>

definition createOrder :: "(body \<Rightarrow> string option) \<Rightarrow> env \<Rightarrow> db \<Rightarrow> ident \<Rightarrow> body \<Rightarrow> (api_error + order) \<times> db" where
  "createOrder createOrderSchema e d userId b =
     (case createOrderSchema b of
        Some msg \<Rightarrow> (Inl (ApiError msg 400), d)
      | None \<Rightarrow>
          (let cart = findCartItems d userId
           in if length cart = 0 then (Inl EmptyCartError, d)
              else
                (let (validAddressId, d1) = resolveAddress e d userId (b_addressId b)
                 in case subtotalLoop cart (num 0) of
                      Responded err \<Rightarrow> (Inl err, d1)
                    | Thrown ex \<Rightarrow> (Inl (createOrderFailed ex), d1)
                    | Value subtotal \<Rightarrow>
                        (case createOrderTx e userId b validAddressId cart subtotal d1 of
                           Inl ex \<Rightarrow> (Inl (createOrderFailed ex), d1)
                         | Inr (newOrder, d2) \<Rightarrow> (Inr newOrder, d2)))))"

section \<open>initiateCheckout\<close>

fun previewLoop :: "line list \<Rightarrow> jsnum \<Rightarrow> exn + jsnum" where
  "previewLoop [] subtotal = Inr subtotal"
| "previewLoop ((item, None) # rest) subtotal = Inl TypeError"
| "previewLoop ((item, Some p) # rest) subtotal =
     previewLoop rest (js_add subtotal (lineTotal item p))"

text \<open>The running sum of the line totals, as both loops accumulate it.\<close>

definition cartSum :: "line list \<Rightarrow> jsnum" where
  "cartSum cart =
     foldl (\<lambda>s l. case snd l of None \<Rightarrow> s | Some p \<Rightarrow> js_add s (lineTotal (fst l) p))
       (num 0) cart"

record checkoutData =
  cd_items :: "line list"
  cd_subtotal :: fixed2
  cd_shippingCost :: fixed2
  cd_tax :: fixed2
  cd_total :: fixed2
  cd_paymentMethod :: string

definition initiateCheckout :: "(body \<Rightarrow> string option) \<Rightarrow> db \<Rightarrow> ident \<Rightarrow> body \<Rightarrow> api_error + checkoutData" where
  "initiateCheckout checkoutSchema d userId b =
     (case checkoutSchema b of
        Some msg \<Rightarrow> Inl (ApiError msg 400)
      | None \<Rightarrow>
          (let cart = findCartItems d userId
           in if length cart = 0 then Inl EmptyCartError
              else
                (case previewLoop cart (num 0) of
                   Inl ex \<Rightarrow> Inl (ApiError ''Failed to initiate checkout'' 500)
                 | Inr subtotal \<Rightarrow>
                     Inr \<lparr>cd_items = cart,
                          cd_subtotal = toFixed2 subtotal,
                          cd_shippingCost = toFixed2 (shippingCostOf subtotal),
                          cd_tax = toFixed2 (taxOf subtotal),
                          cd_total = toFixed2 (totalOf subtotal),
                          cd_paymentMethod = b_paymentMethod b\<rparr>)))"

section \<open>getOrder and cancelOrder\<close>

text \<open>
  The answer of \<open>getOrder\<close>: the order, its items with their products, and the fixed
  address object that the handler attaches in place of the stored address.
\<close>

record mockAddress =
  m_name :: string
  m_phone :: string
  m_street :: string
  m_city :: string
  m_state :: string
  m_pincode :: string

record orderView =
  ov_order :: order
  ov_items :: "(orderItem \<times> product option) list"
  ov_address :: mockAddress

definition mockAddressData :: mockAddress where
  "mockAddressData =
     \<lparr>m_name = ''John Doe'', m_phone = ''9876543210'',
      m_street = ''123 Main Street, Apartment 4B'', m_city = ''Mumbai'',
      m_state = ''Maharashtra'', m_pincode = ''400001''\<rparr>"

definition getOrder :: "db \<Rightarrow> ident \<Rightarrow> ident \<Rightarrow> api_error + orderView" where
  "getOrder d oid userId =
     (case findOrder d oid userId of
        None \<Rightarrow> Inl OrderNotFound
      | Some ord \<Rightarrow>
          Inr \<lparr>ov_order = ord,
               ov_items = map (\<lambda>oi. (oi, findProduct d (oi_productId oi))) (itemsOf d (o_id ord)),
               ov_address = mockAddressData\<rparr>)"

text \<open>The stock updates of a cancellation, one per item of the order.\<close>

fun restoreLoop :: "orderItem list \<Rightarrow> product list \<Rightarrow> product list option" where
  "restoreLoop [] ps = Some ps"
| "restoreLoop (item # rest) ps =
     (case updateStock (oi_productId item) (\<lambda>s. s + oi_quantity item) ps of
        None \<Rightarrow> None
      | Some ps' \<Rightarrow> restoreLoop rest ps')"

definition cancellable :: "string \<Rightarrow> bool" where
  "cancellable st = (st \<in> set [''PENDING'', ''CONFIRMED''])"

definition setCancelled :: "ident \<Rightarrow> order list \<Rightarrow> order list" where
  "setCancelled oid os = map (\<lambda>x. if o_id x = oid then x\<lparr>o_status := ''CANCELLED''\<rparr> else x) os"

definition cancelOrder :: "db \<Rightarrow> ident \<Rightarrow> ident \<Rightarrow> (api_error + unit) \<times> db" where
  "cancelOrder d oid userId =
     (case findOrder d oid userId of
        None \<Rightarrow> (Inl OrderNotFound, d)
      | Some ord \<Rightarrow>
          if \<not> cancellable (o_status ord) then (Inl InvalidStateTransitionError, d)
          else
            (case restoreLoop (itemsOf d (o_id ord)) (products d) of
               None \<Rightarrow> (Inl (ApiError ''Failed to cancel order'' 500), d)
             | Some ps \<Rightarrow>
                 (Inr (), d\<lparr>orders := setCancelled oid (orders d), products := ps\<rparr>)))"

section \<open>Sample data\<close>

text \<open>
  A store with one product and the one-line cart of user \<open>u1\<close>, and a store holding one
  order of \<open>u1\<close> with one item; the concrete runs below are made on them.
\<close>

definition sampleProduct :: "jsval \<Rightarrow> jsval \<Rightarrow> int \<Rightarrow> bool \<Rightarrow> product" where
  "sampleProduct pr sp st act =
     \<lparr>p_id = ''p1'', p_name = ''Widget'', p_price = pr, p_salePrice = sp,
      p_stock = st, p_isActive = act\<rparr>"

definition sampleDb :: "product \<Rightarrow> int \<Rightarrow> db" where
  "sampleDb p q =
     \<lparr>products = [p],
      cartItems = [\<lparr>ci_userId = ''u1'', ci_productId = ''p1'', ci_quantity = q\<rparr>],
      addresses = [], orders = [], orderItems = []\<rparr>"

definition sampleEnv :: env where
  "sampleEnv =
     \<lparr>now = 1700000000000, random1000 = 7, newOrderId = ''o1'', newAddressId = ''a1''\<rparr>"

definition sampleBody :: body where
  "sampleBody =
     \<lparr>b_addressId = ''a0'', b_paymentMethod = ''COD'', b_paymentIntentId = None,
      b_notes = None\<rparr>"

definition sampleOrder :: "string \<Rightarrow> order" where
  "sampleOrder st =
     \<lparr>o_id = ''o1'', o_userId = ''u1'', o_addressId = ''a1'',
      o_orderNumber = ''ORD17000000000007'', o_paymentMethod = ''COD'',
      o_subtotal = num 20, o_shippingCost = num 50, o_tax = lit 36 1, o_total = lit 736 1,
      o_notes = None, o_status = st, o_paymentStatus = ''PENDING''\<rparr>"

definition orderDb :: "string \<Rightarrow> db" where
  "orderDb st =
     \<lparr>products = [sampleProduct (JDecimal 1000 2) JNull 3 True],
      cartItems = [], addresses = [], orders = [sampleOrder st],
      orderItems = [\<lparr>oi_orderId = ''o1'', oi_productId = ''p1'', oi_quantity = 2,
                      oi_price = num 10, oi_total = num 20\<rparr>]\<rparr>"

definition twoCartsDb :: db where
  "twoCartsDb =
     \<lparr>products = [sampleProduct (JDecimal 1000 2) JNull 5 True],
      cartItems = [\<lparr>ci_userId = ''u1'', ci_productId = ''p1'', ci_quantity = 1\<rparr>,
                   \<lparr>ci_userId = ''u2'', ci_productId = ''p1'', ci_quantity = 2\<rparr>],
      addresses = [defaultAddress ''a0'' ''u2''], orders = [], orderItems = []\<rparr>"

definition secondEnv :: "int \<Rightarrow> env" where
  "secondEnv r =
     \<lparr>now = 1700000000000, random1000 = r, newOrderId = ''o2'', newAddressId = ''a2''\<rparr>"

section \<open>Properties of the loops and queries\<close>

lemma findProduct_Some:
  "findProduct d pid = Some p \<Longrightarrow> p \<in> set (products d) \<and> p_id p = pid"
  by (auto simp: findProduct_def find_Some_iff)

lemma findOrder_Some:
  "findOrder d oid userId = Some ord \<Longrightarrow>
     ord \<in> set (orders d) \<and> o_id ord = oid \<and> o_userId ord = userId"
  by (auto simp: findOrder_def find_Some_iff)

lemma resolveAddress_frame:
  assumes "resolveAddress e d userId aid = (v, d1)"
  shows "products d1 = products d" and "cartItems d1 = cartItems d"
    and "orders d1 = orders d" and "orderItems d1 = orderItems d"
  using assms by (auto simp: resolveAddress_def split: option.splits)

lemma updateStock_Some:
  assumes "\<exists>p \<in> set ps. p_id p = pid"
  shows "updateStock pid f ps =
           Some (map (\<lambda>p. if p_id p = pid then p\<lparr>p_stock := f (p_stock p)\<rparr> else p) ps)"
  using assms by (auto simp: updateStock_def)

text \<open>The first offending line ends the validation loop with its error.\<close>

lemma subtotalLoop_offending:
  assumes "\<forall>l \<in> set cart. snd l \<noteq> None"
    and "\<exists>item p. (item, Some p) \<in> set cart \<and> (\<not> p_isActive p \<or> p_stock p < ci_quantity item)"
  shows "\<exists>item p. (item, Some p) \<in> set cart
           \<and> (\<not> p_isActive p \<or> p_stock p < ci_quantity item)
           \<and> subtotalLoop cart s =
               Responded (if \<not> p_isActive p then ProductUnavailableError (p_name p)
                          else InsufficientStockError (p_name p))"
  using assms
proof (induction cart s rule: subtotalLoop.induct)
  case (1 subtotal)
  then show ?case by simp
next
  case (2 item rest subtotal)
  then show ?case by simp
next
  case (3 item p rest subtotal)
  show ?case
  proof (cases "\<not> p_isActive p \<or> p_stock p < ci_quantity item")
    case True
    then show ?thesis by (intro exI [of _ item] exI [of _ p]) auto
  next
    case False
    with 3 obtain item' p' where h: "(item', Some p') \<in> set rest"
        "\<not> p_isActive p' \<or> p_stock p' < ci_quantity item'"
        "subtotalLoop rest (js_add subtotal (lineTotal item p)) =
               Responded (if \<not> p_isActive p' then ProductUnavailableError (p_name p')
                          else InsufficientStockError (p_name p'))"
      by auto
    with False show ?thesis by (intro exI [of _ item'] exI [of _ p']) auto
  qed
qed

text \<open>
  A validation loop that runs to its end has seen only active products with enough
  stock; the item loop of the transaction then inserts one row per line, and the
  subtotal is the running sum of the rows' totals.
\<close>

lemma subtotalLoop_Value:
  assumes "subtotalLoop cart s = Value t"
  shows "\<exists>ois. createItems oid cart = Inr ois
           \<and> list_all2 (\<lambda>l oi. \<exists>p. snd l = Some p \<and> p_isActive p
                                  \<and> ci_quantity (fst l) \<le> p_stock p
                                  \<and> oi = orderItemData oid (fst l) p) cart ois
           \<and> t = foldl js_add s (map oi_total ois)"
  using assms
proof (induction cart s rule: subtotalLoop.induct)
  case (1 subtotal)
  then show ?case by simp
next
  case (2 item rest subtotal)
  then show ?case by simp
next
  case (3 item p rest subtotal)
  from "3.prems" have ok: "p_isActive p" "\<not> p_stock p < ci_quantity item"
    and rest: "subtotalLoop rest (js_add subtotal (lineTotal item p)) = Value t"
    by (auto split: if_splits)
  from "3.IH" ok rest obtain ois where h: "createItems oid rest = Inr ois"
      "list_all2 (\<lambda>l oi. \<exists>p. snd l = Some p \<and> p_isActive p
                                  \<and> ci_quantity (fst l) \<le> p_stock p
                                  \<and> oi = orderItemData oid (fst l) p) rest ois"
      "t = foldl js_add (js_add subtotal (lineTotal item p)) (map oi_total ois)"
    by auto
  show ?case
    using h ok
    by (intro exI [of _ "orderItemData oid item p # ois"]) (simp add: orderItemData_def)
qed

lemma decrementLoop_Some:
  assumes "\<forall>l \<in> set cart. \<exists>p \<in> set ps. p_id p = ci_productId (fst l)"
  shows "decrementLoop cart ps =
           Some (map (\<lambda>p. p\<lparr>p_stock := p_stock p -
                     sum_list (map ci_quantity
                       (filter (\<lambda>ci. ci_productId ci = p_id p) (map fst cart)))\<rparr>) ps)"
  using assms
proof (induction cart arbitrary: ps)
  case Nil
  then show ?case by (simp add: map_idI)
next
  case (Cons l cart)
  obtain item po where l: "l = (item, po)" by (cases l)
  let ?g = "\<lambda>p. if p_id p = ci_productId item
                 then p\<lparr>p_stock := p_stock p - ci_quantity item\<rparr> else p"
  have up: "updateStock (ci_productId item) (\<lambda>s. s - ci_quantity item) ps = Some (map ?g ps)"
    using Cons.prems l by (intro updateStock_Some) auto
  have "\<forall>l \<in> set cart. \<exists>p \<in> set (map ?g ps). p_id p = ci_productId (fst l)"
  proof
    fix l' assume "l' \<in> set cart"
    with Cons.prems obtain p where "p \<in> set ps" "p_id p = ci_productId (fst l')" by auto
    then have "?g p \<in> set (map ?g ps)" "p_id (?g p) = ci_productId (fst l')" by auto
    then show "\<exists>p \<in> set (map ?g ps). p_id p = ci_productId (fst l')" by blast
  qed
  from Cons.IH [OF this] up l show ?case
    by (auto simp: algebra_simps)
qed

lemma restoreLoop_Some:
  assumes "\<forall>oi \<in> set items. \<exists>p \<in> set ps. p_id p = oi_productId oi"
  shows "restoreLoop items ps =
           Some (map (\<lambda>p. p\<lparr>p_stock := p_stock p +
                     sum_list (map oi_quantity
                       (filter (\<lambda>oi. oi_productId oi = p_id p) items))\<rparr>) ps)"
  using assms
proof (induction items arbitrary: ps)
  case Nil
  then show ?case by (simp add: map_idI)
next
  case (Cons item items)
  let ?g = "\<lambda>p. if p_id p = oi_productId item
                 then p\<lparr>p_stock := p_stock p + oi_quantity item\<rparr> else p"
  have up: "updateStock (oi_productId item) (\<lambda>s. s + oi_quantity item) ps = Some (map ?g ps)"
    using Cons.prems by (intro updateStock_Some) auto
  have "\<forall>oi \<in> set items. \<exists>p \<in> set (map ?g ps). p_id p = oi_productId oi"
  proof
    fix oi assume "oi \<in> set items"
    with Cons.prems obtain p where "p \<in> set ps" "p_id p = oi_productId oi" by auto
    then have "?g p \<in> set (map ?g ps)" "p_id (?g p) = oi_productId oi" by auto
    then show "\<exists>p \<in> set (map ?g ps). p_id p = oi_productId oi" by blast
  qed
  from Cons.IH [OF this] up show ?case
    by (auto simp: algebra_simps)
qed

lemma sum_distinct_find:
  assumes "distinct (map ci_productId cis)"
  shows "sum_list (map ci_quantity (filter (\<lambda>ci. ci_productId ci = k) cis)) =
           (case find (\<lambda>ci. ci_productId ci = k) cis of
              None \<Rightarrow> 0
            | Some ci \<Rightarrow> ci_quantity ci)"
  using assms
proof (induction cis)
  case Nil
  then show ?case by simp
next
  case (Cons ci cis)
  show ?case
  proof (cases "ci_productId ci = k")
    case True
    from Cons.prems have "ci_productId ci \<notin> ci_productId ` set cis" by simp
    with True have "\<forall>x \<in> set cis. ci_productId x \<noteq> k" by (metis imageI)
    then have "filter (\<lambda>ci. ci_productId ci = k) cis = []"
      by (simp add: filter_empty_conv)
    with True show ?thesis by simp
  next
    case False
    with Cons show ?thesis by simp
  qed
qed

text \<open>What a successful \<open>createOrder\<close> went through.\<close>

lemma createOrder_Inr:
  assumes "createOrder createOrderSchema e d userId b = (Inr ord, d')"
  shows "\<exists>v d1 t ois ps.
           resolveAddress e d userId (b_addressId b) = (v, d1)
         \<and> createOrderSchema b = None
         \<and> findCartItems d userId \<noteq> []
         \<and> subtotalLoop (findCartItems d userId) (num 0) = Value t
         \<and> ord = newOrderOf e userId b v t
         \<and> createItems (newOrderId e) (findCartItems d userId) = Inr ois
         \<and> decrementLoop (findCartItems d userId) (products d) = Some ps
         \<and> d' = d1\<lparr>orders := orders d @ [ord], orderItems := orderItems d @ ois,
                   products := ps,
                   cartItems := filter (\<lambda>ci. ci_userId ci \<noteq> userId) (cartItems d)\<rparr>"
proof -
  obtain v d1 where ra: "resolveAddress e d userId (b_addressId b) = (v, d1)"
    by (cases "resolveAddress e d userId (b_addressId b)")
  show ?thesis
    using assms ra
    by (auto simp: createOrder_def createOrderTx_def Let_def newOrderOf_def resolveAddress_def
             split: option.splits if_splits flow.splits sum.splits prod.splits)
qed

lemma find_map_preserved:
  assumes "\<And>x. P (f x) = P x"
  shows "find P (map f xs) = map_option f (find P xs)"
  using assms by (induction xs) auto

lemma findOrder_setCancelled:
  assumes "findOrder d oid userId = Some ord"
  shows "findOrder (d\<lparr>orders := setCancelled oid (orders d), products := ps\<rparr>) oid userId =
           Some (ord\<lparr>o_status := ''CANCELLED''\<rparr>)"
proof -
  have "find (\<lambda>x. o_id x = oid \<and> o_userId x = userId) (setCancelled oid (orders d)) =
        map_option (\<lambda>x. if o_id x = oid then x\<lparr>o_status := ''CANCELLED''\<rparr> else x)
          (find (\<lambda>x. o_id x = oid \<and> o_userId x = userId) (orders d))"
    unfolding setCancelled_def by (rule find_map_preserved) simp
  with assms findOrder_Some [OF assms] show ?thesis
    by (simp add: findOrder_def)
qed

lemma previewLoop_sum:
  assumes "\<forall>l \<in> set cart. snd l \<noteq> None"
  shows "previewLoop cart s =
           Inr (foldl (\<lambda>s l. case snd l of None \<Rightarrow> s | Some p \<Rightarrow> js_add s (lineTotal (fst l) p))
                  s cart)"
  using assms by (induction cart s rule: previewLoop.induct) auto

lemma subtotalLoop_sum:
  assumes "subtotalLoop cart s = Value t"
  shows "t = foldl (\<lambda>s l. case snd l of None \<Rightarrow> s | Some p \<Rightarrow> js_add s (lineTotal (fst l) p))
               s cart"
  using assms by (induction cart s rule: subtotalLoop.induct) (auto split: if_splits)

text \<open>The decimal digits of a natural number determine it.\<close>

lemma digit_char_inj:
  assumes "0 \<le> a" "a < 10" "0 \<le> b" "b < 10" "digit_char a = digit_char b"
  shows "a = b"
proof -
  from assms(5) have "(48 + a) mod 256 = (48 + b) mod 256"
    by (simp add: digit_char_def)
  with assms(1-4) show ?thesis by simp
qed

lemma digits_nonempty: "digits n \<noteq> []"
  by (subst digits.simps) simp

lemma digits_inj:
  assumes "0 \<le> a" "0 \<le> b" "digits a = digits b"
  shows "a = b"
  using assms
proof (induction a arbitrary: b rule: digits.induct)
  case (1 n)
  have dn: "digits n = (if n < 10 then [digit_char n]
                        else digits (n div 10) @ [digit_char (n mod 10)])"
    by (subst digits.simps) simp
  have db: "digits b = (if b < 10 then [digit_char b]
                        else digits (b div 10) @ [digit_char (b mod 10)])"
    by (subst digits.simps) simp
  show ?case
  proof (cases "n < 10")
    case True
    show ?thesis
    proof (cases "b < 10")
      case True
      with \<open>n < 10\<close> "1.prems" dn db show ?thesis
        by (auto intro: digit_char_inj)
    next
      case False
      with \<open>n < 10\<close> "1.prems"(3) dn db digits_nonempty [of "b div 10"] show ?thesis
        by (cases "digits (b div 10)") auto
    qed
  next
    case False
    show ?thesis
    proof (cases "b < 10")
      case True
      with \<open>\<not> n < 10\<close> "1.prems"(3) dn db digits_nonempty [of "n div 10"] show ?thesis
        by (cases "digits (n div 10)") auto
    next
      case bf: False
      with False "1.prems"(3) dn db
      have eq: "digits (n div 10) = digits (b div 10)"
        and last: "digit_char (n mod 10) = digit_char (b mod 10)"
        by auto
      from "1.prems" have "0 \<le> n div 10" "0 \<le> b div 10" by simp_all
      with "1.IH" [OF False _ _ eq] have q: "n div 10 = b div 10" by simp
      have "n mod 10 = b mod 10"
        by (rule digit_char_inj [OF _ _ _ _ last]) simp_all
      with q show ?thesis
        by (metis mult_div_mod_eq)
    qed
  qed
qed

lemma orderNumberOf_eq_iff:
  assumes "0 \<le> now e1" "0 \<le> now e2" "0 \<le> random1000 e1" "0 \<le> random1000 e2"
    and "length (digits (now e1)) = length (digits (now e2))"
  shows "(orderNumberOf e1 = orderNumberOf e2) = (now e1 = now e2 \<and> random1000 e1 = random1000 e2)"
proof -
  have "(orderNumberOf e1 = orderNumberOf e2) =
          (digits (now e1) = digits (now e2) \<and> digits (random1000 e1) = digits (random1000 e2))"
    using assms by (simp add: orderNumberOf_def int_string_def)
  with assms(1-4) show ?thesis
    by (auto dest: digits_inj)
qed

section \<open>The claims\<close>

text \<open>
  C1. When a line of the cart has an inactive product or less stock than its quantity
  (and every line's product exists, the request passing validation), \<open>createOrder\<close>
  answers with the error of such a line, naming its product: ProductUnavailableError
  when the product is inactive, InsufficientStockError otherwise. No order and no order
  item is inserted, no stock changes and the cart is unchanged.
\<close>

theorem createOrder_fails_entirely:
  assumes "createOrderSchema b = None"
    and "\<forall>ci \<in> set (userCart d userId). findProduct d (ci_productId ci) \<noteq> None"
    and "\<exists>ci \<in> set (userCart d userId). \<exists>p. findProduct d (ci_productId ci) = Some p
           \<and> (\<not> p_isActive p \<or> p_stock p < ci_quantity ci)"
  shows "(\<exists>ci \<in> set (userCart d userId). \<exists>p. findProduct d (ci_productId ci) = Some p
            \<and> (\<not> p_isActive p \<or> p_stock p < ci_quantity ci)
            \<and> fst (createOrder createOrderSchema e d userId b) =
                Inl (if \<not> p_isActive p then ProductUnavailableError (p_name p)
                     else InsufficientStockError (p_name p)))
         \<and> orders (snd (createOrder createOrderSchema e d userId b)) = orders d
         \<and> orderItems (snd (createOrder createOrderSchema e d userId b)) = orderItems d
         \<and> products (snd (createOrder createOrderSchema e d userId b)) = products d
         \<and> cartItems (snd (createOrder createOrderSchema e d userId b)) = cartItems d"
proof -
  let ?cart = "findCartItems d userId"
  obtain v d1 where ra: "resolveAddress e d userId (b_addressId b) = (v, d1)"
    by (cases "resolveAddress e d userId (b_addressId b)")
  have present: "\<forall>l \<in> set ?cart. snd l \<noteq> None"
    using assms(2) by (auto simp: findCartItems_def)
  have bad: "\<exists>item p. (item, Some p) \<in> set ?cart
               \<and> (\<not> p_isActive p \<or> p_stock p < ci_quantity item)"
    using assms(3) by (force simp: findCartItems_def)
  from subtotalLoop_offending [OF present bad, of "num 0"]
  obtain item p where h: "(item, Some p) \<in> set ?cart"
      "\<not> p_isActive p \<or> p_stock p < ci_quantity item"
      "subtotalLoop ?cart (num 0) =
         Responded (if \<not> p_isActive p then ProductUnavailableError (p_name p)
                    else InsufficientStockError (p_name p))"
    by blast
  from h(1) have ne: "length ?cart \<noteq> 0" by auto
  have run: "createOrder createOrderSchema e d userId b =
      (Inl (if \<not> p_isActive p then ProductUnavailableError (p_name p)
            else InsufficientStockError (p_name p)), d1)"
    using assms(1) ne ra h(3) by (simp add: createOrder_def Let_def)
  from h(1) have mem: "item \<in> set (userCart d userId)"
      "findProduct d (ci_productId item) = Some p"
    by (auto simp: findCartItems_def)
  show ?thesis
    using run resolveAddress_frame [OF ra] mem h(2) by auto
qed

theorem createOrder_fails_entirely_witness:
  "fst (createOrder (\<lambda>_. None) sampleEnv
          (sampleDb (sampleProduct (JDecimal 1000 2) JNull 2 True) 3) ''u1'' sampleBody) =
     Inl (InsufficientStockError ''Widget'')
   \<and> orders (snd (createOrder (\<lambda>_. None) sampleEnv
          (sampleDb (sampleProduct (JDecimal 1000 2) JNull 2 True) 3) ''u1'' sampleBody)) = []
   \<and> orderItems (snd (createOrder (\<lambda>_. None) sampleEnv
          (sampleDb (sampleProduct (JDecimal 1000 2) JNull 2 True) 3) ''u1'' sampleBody)) = []
   \<and> products (snd (createOrder (\<lambda>_. None) sampleEnv
          (sampleDb (sampleProduct (JDecimal 1000 2) JNull 2 True) 3) ''u1'' sampleBody)) =
       [sampleProduct (JDecimal 1000 2) JNull 2 True]
   \<and> cartItems (snd (createOrder (\<lambda>_. None) sampleEnv
          (sampleDb (sampleProduct (JDecimal 1000 2) JNull 2 True) 3) ''u1'' sampleBody)) =
       [\<lparr>ci_userId = ''u1'', ci_productId = ''p1'', ci_quantity = 3\<rparr>]"
proof -
  let ?d = "sampleDb (sampleProduct (JDecimal 1000 2) JNull 2 True) 3"
  have h1: "(\<lambda>_. None) sampleBody = (None :: string option)" by simp
  have h2: "\<forall>ci \<in> set (userCart ?d ''u1''). findProduct ?d (ci_productId ci) \<noteq> None"
    by (simp add: userCart_def sampleDb_def findProduct_def sampleProduct_def)
  have h3: "\<exists>ci \<in> set (userCart ?d ''u1''). \<exists>p. findProduct ?d (ci_productId ci) = Some p
           \<and> (\<not> p_isActive p \<or> p_stock p < ci_quantity ci)"
    by (simp add: userCart_def sampleDb_def findProduct_def sampleProduct_def)
  have err: "fst (createOrder (\<lambda>_. None) sampleEnv ?d ''u1'' sampleBody) =
     Inl (InsufficientStockError ''Widget'')"
    by code_simp
  from createOrder_fails_entirely [OF h1 h2 h3, of sampleEnv] err show ?thesis
    by (simp add: sampleDb_def)
qed

text \<open>
  C2. When \<open>createOrder\<close> succeeds on a cart with one line per product, the cart was not
  empty; the stock of every product of a cart line is decremented by exactly that
  line's quantity, and no other stock changes; one order item is inserted per cart
  line, in the order of the cart, carrying the line's product and quantity and the unit
  price (sale price or list price) from which the subtotal was summed; and the user's
  cart rows are all deleted, the carts of other users being kept.
\<close>

theorem createOrder_success:
  assumes run: "createOrder createOrderSchema e d userId b = (Inr ord, d')"
    and dist: "distinct (map ci_productId (userCart d userId))"
  shows "userCart d userId \<noteq> []
    \<and> products d' =
        map (\<lambda>p. case find (\<lambda>ci. ci_productId ci = p_id p) (userCart d userId) of
                   None \<Rightarrow> p
                 | Some ci \<Rightarrow> p\<lparr>p_stock := p_stock p - ci_quantity ci\<rparr>) (products d)
    \<and> (\<exists>ois. orderItems d' = orderItems d @ ois
          \<and> list_all2 (\<lambda>ci oi. \<exists>p. findProduct d (ci_productId ci) = Some p
                  \<and> oi = \<lparr>oi_orderId = o_id ord, oi_productId = ci_productId ci,
                           oi_quantity = ci_quantity ci, oi_price = unitPrice p,
                           oi_total = js_mul (unitPrice p) (num (ci_quantity ci))\<rparr>)
               (userCart d userId) ois
          \<and> o_subtotal ord =
              parseFloat_fixed (toFixed2 (foldl js_add (num 0)
                (map (\<lambda>oi. js_mul (oi_price oi) (num (oi_quantity oi))) ois))))
    \<and> cartItems d' = filter (\<lambda>ci. ci_userId ci \<noteq> userId) (cartItems d)
    \<and> userCart d' userId = []"
proof -
  let ?cart = "findCartItems d userId"
  from createOrder_Inr [OF run] obtain v d1 t ois ps where
    ra: "resolveAddress e d userId (b_addressId b) = (v, d1)"
    and ne: "?cart \<noteq> []"
    and loop: "subtotalLoop ?cart (num 0) = Value t"
    and ord: "ord = newOrderOf e userId b v t"
    and items: "createItems (newOrderId e) ?cart = Inr ois"
    and dec: "decrementLoop ?cart (products d) = Some ps"
    and d': "d' = d1\<lparr>orders := orders d @ [ord], orderItems := orderItems d @ ois,
                   products := ps,
                   cartItems := filter (\<lambda>ci. ci_userId ci \<noteq> userId) (cartItems d)\<rparr>"
    by blast
  have oid: "o_id ord = newOrderId e" by (simp add: ord newOrderOf_def)
  from subtotalLoop_Value [OF loop, of "newOrderId e"] items
  have rel: "list_all2 (\<lambda>l oi. \<exists>p. snd l = Some p \<and> p_isActive p
                                  \<and> ci_quantity (fst l) \<le> p_stock p
                                  \<and> oi = orderItemData (newOrderId e) (fst l) p) ?cart ois"
    and t: "t = foldl js_add (num 0) (map oi_total ois)"
    by auto
  have c1: "userCart d userId \<noteq> []" using ne by (simp add: findCartItems_def)
  have rel': "list_all2 (\<lambda>ci oi. \<exists>p. findProduct d (ci_productId ci) = Some p
                  \<and> oi = \<lparr>oi_orderId = o_id ord, oi_productId = ci_productId ci,
                           oi_quantity = ci_quantity ci, oi_price = unitPrice p,
                           oi_total = js_mul (unitPrice p) (num (ci_quantity ci))\<rparr>)
               (userCart d userId) ois"
    using rel unfolding findCartItems_def list_all2_map1 oid
    by (rule list_all2_mono) (auto simp: orderItemData_def lineTotal_def)
  have tot: "map oi_total ois = map (\<lambda>oi. js_mul (oi_price oi) (num (oi_quantity oi))) ois"
    using rel' by (induction rule: list_all2_induct) auto
  have c3: "o_subtotal ord = parseFloat_fixed (toFixed2 (foldl js_add (num 0)
                (map (\<lambda>oi. js_mul (oi_price oi) (num (oi_quantity oi))) ois)))"
    using t tot by (simp add: ord newOrderOf_def)
  have ex: "\<forall>l \<in> set ?cart. \<exists>p \<in> set (products d). p_id p = ci_productId (fst l)"
  proof
    fix l assume "l \<in> set ?cart"
    then obtain ci where ci: "ci \<in> set (userCart d userId)"
        "l = (ci, findProduct d (ci_productId ci))"
      by (auto simp: findCartItems_def)
    from rel' ci(1) obtain p where "findProduct d (ci_productId ci) = Some p"
      by (auto simp: list_all2_conv_all_nth in_set_conv_nth)
    with ci findProduct_Some show "\<exists>p \<in> set (products d). p_id p = ci_productId (fst l)"
      by fastforce
  qed
  have fstcart: "map fst ?cart = userCart d userId"
    by (simp add: findCartItems_def comp_def)
  have ps: "ps = map (\<lambda>p. p\<lparr>p_stock := p_stock p -
                     sum_list (map ci_quantity
                       (filter (\<lambda>ci. ci_productId ci = p_id p) (userCart d userId)))\<rparr>)
                 (products d)"
    using decrementLoop_Some [OF ex] dec fstcart by simp
  have c2: "products d' =
        map (\<lambda>p. case find (\<lambda>ci. ci_productId ci = p_id p) (userCart d userId) of
                   None \<Rightarrow> p
                 | Some ci \<Rightarrow> p\<lparr>p_stock := p_stock p - ci_quantity ci\<rparr>) (products d)"
    unfolding d' ps by (auto simp: sum_distinct_find [OF dist] split: option.splits)
  have c4: "cartItems d' = filter (\<lambda>ci. ci_userId ci \<noteq> userId) (cartItems d)"
    by (simp add: d')
  have c5: "userCart d' userId = []"
    by (simp add: userCart_def c4)
  have c3': "orderItems d' = orderItems d @ ois" by (simp add: d')
  show ?thesis using c1 c2 c3 c3' rel' c4 c5 by blast
qed

theorem createOrder_success_witness:
  "products (snd (createOrder (\<lambda>_. None) sampleEnv
       (sampleDb (sampleProduct (JDecimal 925 2) JNull 5 True) 1) ''u1'' sampleBody)) =
     [sampleProduct (JDecimal 925 2) JNull 4 True]
   \<and> userCart (snd (createOrder (\<lambda>_. None) sampleEnv
       (sampleDb (sampleProduct (JDecimal 925 2) JNull 5 True) 1) ''u1'' sampleBody)) ''u1'' = []
   \<and> orderItems (snd (createOrder (\<lambda>_. None) sampleEnv
       (sampleDb (sampleProduct (JDecimal 925 2) JNull 5 True) 1) ''u1'' sampleBody)) =
     [\<lparr>oi_orderId = ''o1'', oi_productId = ''p1'', oi_quantity = 1,
       oi_price = Finite 5207287069147136 (- 49),
       oi_total = Finite 5207287069147136 (- 49)\<rparr>]"
proof -
  let ?d = "sampleDb (sampleProduct (JDecimal 925 2) JNull 5 True) 1"
  let ?r = "createOrder (\<lambda>_. None) sampleEnv ?d ''u1'' sampleBody"
  have "\<not> isl (fst ?r)" by code_simp
  then have run: "?r = (Inr (projr (fst ?r)), snd ?r)"
    by (cases ?r; cases "fst ?r") auto
  have dist: "distinct (map ci_productId (userCart ?d ''u1''))"
    by (simp add: userCart_def sampleDb_def)
  have items: "orderItems (snd ?r) =
     [\<lparr>oi_orderId = ''o1'', oi_productId = ''p1'', oi_quantity = 1,
       oi_price = Finite 5207287069147136 (- 49),
       oi_total = Finite 5207287069147136 (- 49)\<rparr>]"
    by code_simp
  from createOrder_success [OF run dist]
  have "products (snd ?r) =
        map (\<lambda>p. case find (\<lambda>ci. ci_productId ci = p_id p) (userCart ?d ''u1'') of
                   None \<Rightarrow> p
                 | Some ci \<Rightarrow> p\<lparr>p_stock := p_stock p - ci_quantity ci\<rparr>) (products ?d)"
    and "userCart (snd ?r) ''u1'' = []"
    by blast+
  with items show ?thesis
    by (simp add: userCart_def sampleDb_def sampleProduct_def)
qed

text \<open>
  C4. For an order the caller owns, with the product rows of its items in the store,
  \<open>cancelOrder\<close> succeeds exactly when the status is PENDING or CONFIRMED. It then sets
  the status to CANCELLED and adds to every product's stock the quantities of the
  order's items for that product, and nothing else changes; a second cancellation
  answers InvalidStateTransitionError and leaves the store as the first one left it.
  In any other status the answer is InvalidStateTransitionError and the store is
  unchanged.
\<close>

theorem cancelOrder_states:
  assumes found: "findOrder d oid userId = Some ord"
    and prods: "\<forall>oi \<in> set (itemsOf d oid). findProduct d (oi_productId oi) \<noteq> None"
  shows "((fst (cancelOrder d oid userId) = Inr ()) =
           (o_status ord = ''PENDING'' \<or> o_status ord = ''CONFIRMED''))
    \<and> (o_status ord = ''PENDING'' \<or> o_status ord = ''CONFIRMED'' \<longrightarrow>
           cancelOrder d oid userId =
             (Inr (),
              d\<lparr>orders := map (\<lambda>x. if o_id x = oid then x\<lparr>o_status := ''CANCELLED''\<rparr> else x)
                            (orders d),
                products := map (\<lambda>p. p\<lparr>p_stock := p_stock p +
                     sum_list (map oi_quantity
                       (filter (\<lambda>oi. oi_productId oi = p_id p) (itemsOf d oid)))\<rparr>)
                   (products d)\<rparr>)
         \<and> cancelOrder (snd (cancelOrder d oid userId)) oid userId =
             (Inl InvalidStateTransitionError, snd (cancelOrder d oid userId)))
    \<and> (\<not> (o_status ord = ''PENDING'' \<or> o_status ord = ''CONFIRMED'') \<longrightarrow>
           cancelOrder d oid userId = (Inl InvalidStateTransitionError, d))"
proof -
  have oid: "o_id ord = oid" using findOrder_Some [OF found] by simp
  have ex: "\<forall>oi \<in> set (itemsOf d oid). \<exists>p \<in> set (products d). p_id p = oi_productId oi"
    using prods findProduct_Some by fastforce
  note rl = restoreLoop_Some [OF ex]
  have canc: "cancellable (o_status ord) =
                (o_status ord = ''PENDING'' \<or> o_status ord = ''CONFIRMED'')"
    by (auto simp: cancellable_def)
  have iff: "(fst (cancelOrder d oid userId) = Inr ()) =
           (o_status ord = ''PENDING'' \<or> o_status ord = ''CONFIRMED'')"
    using found rl canc oid by (simp add: cancelOrder_def)
  have no: "cancelOrder d oid userId = (Inl InvalidStateTransitionError, d)"
    if "\<not> (o_status ord = ''PENDING'' \<or> o_status ord = ''CONFIRMED'')"
    using that found canc by (simp add: cancelOrder_def)
  have yes: "cancelOrder d oid userId =
             (Inr (),
              d\<lparr>orders := map (\<lambda>x. if o_id x = oid then x\<lparr>o_status := ''CANCELLED''\<rparr> else x)
                            (orders d),
                products := map (\<lambda>p. p\<lparr>p_stock := p_stock p +
                     sum_list (map oi_quantity
                       (filter (\<lambda>oi. oi_productId oi = p_id p) (itemsOf d oid)))\<rparr>)
                   (products d)\<rparr>)
         \<and> cancelOrder (snd (cancelOrder d oid userId)) oid userId =
             (Inl InvalidStateTransitionError, snd (cancelOrder d oid userId))"
    if st: "o_status ord = ''PENDING'' \<or> o_status ord = ''CONFIRMED''"
  proof -
    let ?ps = "map (\<lambda>p. p\<lparr>p_stock := p_stock p +
                     sum_list (map oi_quantity
                       (filter (\<lambda>oi. oi_productId oi = p_id p) (itemsOf d oid)))\<rparr>)
                   (products d)"
    let ?d' = "d\<lparr>orders := setCancelled oid (orders d), products := ?ps\<rparr>"
    have first: "cancelOrder d oid userId = (Inr (), ?d')"
      using st found rl canc oid by (simp add: cancelOrder_def)
    have "findOrder ?d' oid userId = Some (ord\<lparr>o_status := ''CANCELLED''\<rparr>)"
      by (rule findOrder_setCancelled [OF found])
    then have second: "cancelOrder ?d' oid userId = (Inl InvalidStateTransitionError, ?d')"
      by (simp add: cancelOrder_def cancellable_def)
    from first second show ?thesis by (simp add: setCancelled_def)
  qed
  from iff yes no show ?thesis by blast
qed

theorem cancelOrder_states_witness:
  "fst (cancelOrder (orderDb ''PENDING'') ''o1'' ''u1'') = Inr ()
   \<and> map p_stock (products (snd (cancelOrder (orderDb ''PENDING'') ''o1'' ''u1''))) = [5]
   \<and> map o_status (orders (snd (cancelOrder (orderDb ''PENDING'') ''o1'' ''u1''))) =
       [''CANCELLED'']
   \<and> cancelOrder (snd (cancelOrder (orderDb ''PENDING'') ''o1'' ''u1'')) ''o1'' ''u1'' =
       (Inl InvalidStateTransitionError, snd (cancelOrder (orderDb ''PENDING'') ''o1'' ''u1''))
   \<and> cancelOrder (orderDb ''SHIPPED'') ''o1'' ''u1'' =
       (Inl InvalidStateTransitionError, orderDb ''SHIPPED'')"
proof -
  have f1: "findOrder (orderDb ''PENDING'') ''o1'' ''u1'' = Some (sampleOrder ''PENDING'')"
    by (simp add: findOrder_def orderDb_def sampleOrder_def)
  have p1: "\<forall>oi \<in> set (itemsOf (orderDb ''PENDING'') ''o1'').
              findProduct (orderDb ''PENDING'') (oi_productId oi) \<noteq> None"
    by (simp add: itemsOf_def findProduct_def orderDb_def sampleProduct_def)
  have f2: "findOrder (orderDb ''SHIPPED'') ''o1'' ''u1'' = Some (sampleOrder ''SHIPPED'')"
    by (simp add: findOrder_def orderDb_def sampleOrder_def)
  have p2: "\<forall>oi \<in> set (itemsOf (orderDb ''SHIPPED'') ''o1'').
              findProduct (orderDb ''SHIPPED'') (oi_productId oi) \<noteq> None"
    by (simp add: itemsOf_def findProduct_def orderDb_def sampleProduct_def)
  have st1: "o_status (sampleOrder ''PENDING'') = ''PENDING''"
    and st2: "\<not> (o_status (sampleOrder ''SHIPPED'') = ''PENDING''
                \<or> o_status (sampleOrder ''SHIPPED'') = ''CONFIRMED'')"
    by (simp_all add: sampleOrder_def)
  have ev: "map p_stock (products (snd (cancelOrder (orderDb ''PENDING'') ''o1'' ''u1''))) = [5]"
    "map o_status (orders (snd (cancelOrder (orderDb ''PENDING'') ''o1'' ''u1''))) =
       [''CANCELLED'']"
    by code_simp+
  from cancelOrder_states [OF f1 p1] st1
  have a: "fst (cancelOrder (orderDb ''PENDING'') ''o1'' ''u1'') = Inr ()"
    and b: "cancelOrder (snd (cancelOrder (orderDb ''PENDING'') ''o1'' ''u1'')) ''o1'' ''u1'' =
       (Inl InvalidStateTransitionError, snd (cancelOrder (orderDb ''PENDING'') ''o1'' ''u1''))"
    by blast+
  from cancelOrder_states [OF f2 p2] st2
  have c: "cancelOrder (orderDb ''SHIPPED'') ''o1'' ''u1'' =
       (Inl InvalidStateTransitionError, orderDb ''SHIPPED'')"
    by blast
  from a b c ev show ?thesis by (intro conjI)
qed

text \<open>
  C8. \<open>getOrder\<close> answers either OrderNotFound or an order of the store that has the
  requested identifier and belongs to the caller, with items of that order only. When
  every order with the requested identifier belongs to another user, the answer is
  OrderNotFound; when the caller owns an order with this identifier, an order is
  returned.
\<close>

theorem getOrder_scoped:
  "(getOrder d oid userId = Inl OrderNotFound
      \<or> (\<exists>v. getOrder d oid userId = Inr v \<and> ov_order v \<in> set (orders d)
              \<and> o_id (ov_order v) = oid \<and> o_userId (ov_order v) = userId
              \<and> (\<forall>l \<in> set (ov_items v).
                    fst l \<in> set (orderItems d) \<and> oi_orderId (fst l) = oid)))
   \<and> ((\<forall>x \<in> set (orders d). o_id x = oid \<longrightarrow> o_userId x \<noteq> userId)
          \<longrightarrow> getOrder d oid userId = Inl OrderNotFound)
   \<and> ((\<exists>x \<in> set (orders d). o_id x = oid \<and> o_userId x = userId)
          \<longrightarrow> (\<exists>v. getOrder d oid userId = Inr v))"
proof (cases "findOrder d oid userId")
  case None
  then have r: "getOrder d oid userId = Inl OrderNotFound"
    by (simp add: getOrder_def)
  from None have "\<not> (\<exists>x \<in> set (orders d). o_id x = oid \<and> o_userId x = userId)"
    by (auto simp: findOrder_def find_None_iff)
  with r show ?thesis by simp
next
  case (Some ord)
  let ?v = "\<lparr>ov_order = ord,
             ov_items = map (\<lambda>oi. (oi, findProduct d (oi_productId oi))) (itemsOf d (o_id ord)),
             ov_address = mockAddressData\<rparr>"
  from Some have r: "getOrder d oid userId = Inr ?v"
    by (simp add: getOrder_def)
  note own = findOrder_Some [OF Some]
  have items: "\<forall>l \<in> set (ov_items ?v).
                 fst l \<in> set (orderItems d) \<and> oi_orderId (fst l) = oid"
    using own by (auto simp: itemsOf_def)
  have "\<not> (\<forall>x \<in> set (orders d). o_id x = oid \<longrightarrow> o_userId x \<noteq> userId)"
    using own by blast
  moreover have "\<exists>v. getOrder d oid userId = Inr v \<and> ov_order v \<in> set (orders d)
              \<and> o_id (ov_order v) = oid \<and> o_userId (ov_order v) = userId
              \<and> (\<forall>l \<in> set (ov_items v).
                    fst l \<in> set (orderItems d) \<and> oi_orderId (fst l) = oid)"
    using r own items by (intro exI [of _ ?v]) simp
  ultimately show ?thesis by blast
qed

theorem getOrder_scoped_witness:
  "getOrder (orderDb ''PENDING'') ''o1'' ''u2'' = Inl OrderNotFound
   \<and> isl (getOrder (orderDb ''PENDING'') ''o1'' ''u1'') = False"
proof -
  have other: "\<forall>x \<in> set (orders (orderDb ''PENDING'')). o_id x = ''o1'' \<longrightarrow> o_userId x \<noteq> ''u2''"
    by (simp add: orderDb_def sampleOrder_def)
  have own: "\<exists>x \<in> set (orders (orderDb ''PENDING'')). o_id x = ''o1'' \<and> o_userId x = ''u1''"
    by (simp add: orderDb_def sampleOrder_def)
  from getOrder_scoped [of "orderDb ''PENDING''" "''o1''" "''u2''"] other
  have a: "getOrder (orderDb ''PENDING'') ''o1'' ''u2'' = Inl OrderNotFound" by blast
  from getOrder_scoped [of "orderDb ''PENDING''" "''o1''" "''u1''"] own
  obtain v where "getOrder (orderDb ''PENDING'') ''o1'' ''u1'' = Inr v" by blast
  with a show ?thesis by simp
qed

text \<open>
  C9. For a user with no cart rows and a request that passes validation, \<open>createOrder\<close>
  and the checkout preview both answer EmptyCartError, and \<open>createOrder\<close> returns the
  store as it was: no order, order item, stock, address or cart row has changed.
\<close>

theorem empty_cart_rejected:
  assumes "createOrderSchema b = None" and "checkoutSchema b = None"
    and "userCart d userId = []"
  shows "createOrder createOrderSchema e d userId b = (Inl EmptyCartError, d)
       \<and> initiateCheckout checkoutSchema d userId b = Inl EmptyCartError"
  using assms by (simp add: createOrder_def initiateCheckout_def findCartItems_def)

theorem empty_cart_rejected_witness:
  "createOrder (\<lambda>_. None) sampleEnv
       (sampleDb (sampleProduct (JDecimal 925 2) JNull 5 True) 1) ''u2'' sampleBody =
     (Inl EmptyCartError, sampleDb (sampleProduct (JDecimal 925 2) JNull 5 True) 1)
   \<and> initiateCheckout (\<lambda>_. None)
       (sampleDb (sampleProduct (JDecimal 925 2) JNull 5 True) 1) ''u2'' sampleBody =
     Inl EmptyCartError"
proof -
  have h: "(\<lambda>_. None) sampleBody = (None :: string option)" by simp
  have c: "userCart (sampleDb (sampleProduct (JDecimal 925 2) JNull 5 True) 1) ''u2'' = []"
    by (simp add: userCart_def sampleDb_def)
  from empty_cart_rejected [OF h h c] show ?thesis .
qed

text \<open>
  C6 (as amended). The order number is \<open>ORD\<close>, the clock in milliseconds and the random
  suffix, in decimal. Two orders made by \<open>createOrder\<close> at clock values with the same
  number of digits carry the same order number exactly when the clock value and the
  random suffix were the same for both; nothing is checked against the stored orders.
\<close>

theorem orderNumber_collision:
  assumes "createOrder schema1 e1 d1 u1 b1 = (Inr ord1, d1')"
    and "createOrder schema2 e2 d2 u2 b2 = (Inr ord2, d2')"
    and "0 \<le> now e1" "0 \<le> now e2" "0 \<le> random1000 e1" "0 \<le> random1000 e2"
    and "length (digits (now e1)) = length (digits (now e2))"
  shows "(o_orderNumber ord1 = o_orderNumber ord2) =
           (now e1 = now e2 \<and> random1000 e1 = random1000 e2)"
proof -
  from createOrder_Inr [OF assms(1)] have "o_orderNumber ord1 = orderNumberOf e1"
    by (auto simp: newOrderOf_def)
  moreover from createOrder_Inr [OF assms(2)] have "o_orderNumber ord2 = orderNumberOf e2"
    by (auto simp: newOrderOf_def)
  ultimately show ?thesis
    using orderNumberOf_eq_iff [OF assms(3-7)] by simp
qed

theorem orderNumber_collision_witness:
  "o_orderNumber (projr (fst (createOrder (\<lambda>_. None) sampleEnv twoCartsDb ''u1'' sampleBody)))
     \<noteq> o_orderNumber (projr (fst (createOrder (\<lambda>_. None) (secondEnv 8) twoCartsDb ''u2'' sampleBody)))"
proof -
  let ?r1 = "createOrder (\<lambda>_. None) sampleEnv twoCartsDb ''u1'' sampleBody"
  let ?r2 = "createOrder (\<lambda>_. None) (secondEnv 8) twoCartsDb ''u2'' sampleBody"
  have "\<not> isl (fst ?r1)" by code_simp
  then have run1: "?r1 = (Inr (projr (fst ?r1)), snd ?r1)"
    by (cases ?r1; cases "fst ?r1") auto
  have "\<not> isl (fst ?r2)" by code_simp
  then have run2: "?r2 = (Inr (projr (fst ?r2)), snd ?r2)"
    by (cases ?r2; cases "fst ?r2") auto
  have h: "0 \<le> now sampleEnv" "0 \<le> now (secondEnv 8)" "0 \<le> random1000 sampleEnv"
    "0 \<le> random1000 (secondEnv 8)"
    "length (digits (now sampleEnv)) = length (digits (now (secondEnv 8)))"
    by (simp_all add: sampleEnv_def secondEnv_def)
  have "\<not> (now sampleEnv = now (secondEnv 8) \<and> random1000 sampleEnv = random1000 (secondEnv 8))"
    by (simp add: sampleEnv_def secondEnv_def)
  with orderNumber_collision [OF run1 run2 h] show ?thesis by simp
qed

text \<open>
  Two orders of two users, made in the same millisecond with the same random suffix,
  carry the same order number.
\<close>

theorem orderNumber_not_unique:
  "map o_id (orders (snd (createOrder (\<lambda>_. None) (secondEnv 7)
       (snd (createOrder (\<lambda>_. None) sampleEnv twoCartsDb ''u1'' sampleBody))
       ''u2'' sampleBody))) = [''o1'', ''o2'']
   \<and> map o_orderNumber (orders (snd (createOrder (\<lambda>_. None) (secondEnv 7)
       (snd (createOrder (\<lambda>_. None) sampleEnv twoCartsDb ''u1'' sampleBody))
       ''u2'' sampleBody))) = [''ORD17000000000007'', ''ORD17000000000007'']"
  by code_simp

text \<open>
  C5 (as amended). On a valid request with a non-empty cart, when no address row has
  the given identifier, \<open>createOrder\<close> does not fail for it: a placeholder address owned
  by the caller is inserted (also when the order then fails on a cart line) and a
  created order refers to the new address. When the identifier is that of an address of
  the caller, no address is inserted and a created order refers to it.
\<close>

theorem createOrder_address:
  assumes "createOrderSchema b = None" and "userCart d userId \<noteq> []"
  shows "(findAddress d (b_addressId b) = None \<longrightarrow>
            addresses (snd (createOrder createOrderSchema e d userId b)) =
              addresses d @ [defaultAddress (newAddressId e) userId]
          \<and> (\<forall>ord. fst (createOrder createOrderSchema e d userId b) = Inr ord \<longrightarrow>
                o_addressId ord = newAddressId e))
       \<and> (\<forall>a. findAddress d (b_addressId b) = Some a \<and> a_userId a = userId \<longrightarrow>
            addresses (snd (createOrder createOrderSchema e d userId b)) = addresses d
          \<and> (\<forall>ord. fst (createOrder createOrderSchema e d userId b) = Inr ord \<longrightarrow>
                o_addressId ord = b_addressId b))"
  using assms
  by (auto simp: createOrder_def createOrderTx_def Let_def resolveAddress_def
        findCartItems_def newOrderOf_def
      split: option.splits flow.splits sum.splits prod.splits)

theorem createOrder_address_witness:
  "addresses (snd (createOrder (\<lambda>_. None) sampleEnv twoCartsDb ''u1''
       (sampleBody\<lparr>b_addressId := ''a9''\<rparr>))) =
     [defaultAddress ''a0'' ''u2'', defaultAddress ''a1'' ''u1'']
   \<and> o_addressId (projr (fst (createOrder (\<lambda>_. None) sampleEnv twoCartsDb ''u1''
       (sampleBody\<lparr>b_addressId := ''a9''\<rparr>)))) = ''a1''
   \<and> addresses (snd (createOrder (\<lambda>_. None) sampleEnv twoCartsDb ''u2'' sampleBody)) =
     [defaultAddress ''a0'' ''u2'']
   \<and> o_addressId (projr (fst (createOrder (\<lambda>_. None) sampleEnv twoCartsDb ''u2''
       sampleBody))) = ''a0''"
proof -
  let ?r1 = "createOrder (\<lambda>_. None) sampleEnv twoCartsDb ''u1''
       (sampleBody\<lparr>b_addressId := ''a9''\<rparr>)"
  let ?r2 = "createOrder (\<lambda>_. None) sampleEnv twoCartsDb ''u2'' sampleBody"
  have h: "(\<lambda>_. None) (sampleBody\<lparr>b_addressId := ''a9''\<rparr>) = (None :: string option)"
    "(\<lambda>_. None) sampleBody = (None :: string option)"
    by simp_all
  have c: "userCart twoCartsDb ''u1'' \<noteq> []" "userCart twoCartsDb ''u2'' \<noteq> []"
    by (simp_all add: userCart_def twoCartsDb_def)
  have f: "findAddress twoCartsDb (b_addressId (sampleBody\<lparr>b_addressId := ''a9''\<rparr>)) = None"
    "findAddress twoCartsDb (b_addressId sampleBody) = Some (defaultAddress ''a0'' ''u2'')
       \<and> a_userId (defaultAddress ''a0'' ''u2'') = ''u2''"
    by (simp_all add: findAddress_def twoCartsDb_def sampleBody_def defaultAddress_def)
  have "\<not> isl (fst ?r1)" by code_simp
  then have ok1: "fst ?r1 = Inr (projr (fst ?r1))" by (cases "fst ?r1") auto
  have "\<not> isl (fst ?r2)" by code_simp
  then have ok2: "fst ?r2 = Inr (projr (fst ?r2))" by (cases "fst ?r2") auto
  from createOrder_address [OF h(1) c(1), where e = sampleEnv] f(1) ok1
  have 1: "addresses (snd ?r1) =
     addresses twoCartsDb @ [defaultAddress (newAddressId sampleEnv) ''u1'']"
    and 2: "o_addressId (projr (fst ?r1)) = newAddressId sampleEnv"
    by blast+
  from createOrder_address [OF h(2) c(2), where e = sampleEnv] f(2) ok2
  have 3: "addresses (snd ?r2) = addresses twoCartsDb"
    and 4: "o_addressId (projr (fst ?r2)) = b_addressId sampleBody"
    by blast+
  from 1 2 3 4 show ?thesis
    by (simp add: twoCartsDb_def sampleEnv_def sampleBody_def)
qed

text \<open>
  A request whose address identifier names no address is served: the order is created
  and refers to the placeholder address that was inserted for it.
\<close>

theorem placeholder_address_counterexample:
  "isl (fst (createOrder (\<lambda>_. None) sampleEnv
         (sampleDb (sampleProduct (JDecimal 1000 2) JNull 5 True) 1) ''u1'' sampleBody)) = False
   \<and> addresses (sampleDb (sampleProduct (JDecimal 1000 2) JNull 5 True) 1) = []
   \<and> addresses (snd (createOrder (\<lambda>_. None) sampleEnv
         (sampleDb (sampleProduct (JDecimal 1000 2) JNull 5 True) 1) ''u1'' sampleBody)) =
       [defaultAddress ''a1'' ''u1'']
   \<and> map o_addressId (orders (snd (createOrder (\<lambda>_. None) sampleEnv
         (sampleDb (sampleProduct (JDecimal 1000 2) JNull 5 True) 1) ''u1'' sampleBody))) =
       [''a1'']"
  by code_simp

text \<open>
  C7 (as amended). The order items that \<open>createOrder\<close> inserts all belong to the new
  order, and the order's subtotal is the running double precision sum of their totals,
  rounded to two decimals by \<open>toFixed(2)\<close>; the items' totals are stored unrounded.
\<close>

theorem subtotal_rounds_item_totals:
  assumes "createOrder createOrderSchema e d userId b = (Inr ord, d')"
  shows "\<exists>ois. orderItems d' = orderItems d @ ois
           \<and> (\<forall>oi \<in> set ois. oi_orderId oi = o_id ord)
           \<and> o_subtotal ord =
               parseFloat_fixed (toFixed2 (foldl js_add (num 0) (map oi_total ois)))"
proof -
  from createOrder_Inr [OF assms] obtain v d1 t ois ps where
    loop: "subtotalLoop (findCartItems d userId) (num 0) = Value t"
    and ord: "ord = newOrderOf e userId b v t"
    and items: "createItems (newOrderId e) (findCartItems d userId) = Inr ois"
    and d': "d' = d1\<lparr>orders := orders d @ [ord], orderItems := orderItems d @ ois,
                   products := ps,
                   cartItems := filter (\<lambda>ci. ci_userId ci \<noteq> userId) (cartItems d)\<rparr>"
    by blast
  from subtotalLoop_Value [OF loop, of "newOrderId e"] items
  have rel: "list_all2 (\<lambda>l oi. \<exists>p. snd l = Some p \<and> p_isActive p
                                  \<and> ci_quantity (fst l) \<le> p_stock p
                                  \<and> oi = orderItemData (newOrderId e) (fst l) p)
               (findCartItems d userId) ois"
    and t: "t = foldl js_add (num 0) (map oi_total ois)"
    by auto
  have "\<forall>oi \<in> set ois. oi_orderId oi = newOrderId e"
    using rel by (induction rule: list_all2_induct) (auto simp: orderItemData_def)
  then show ?thesis
    using t d' by (intro exI [of _ ois]) (simp add: ord newOrderOf_def)
qed

theorem subtotal_rounds_item_totals_witness:
  "o_subtotal (projr (fst (createOrder (\<lambda>_. None) sampleEnv
       (sampleDb (sampleProduct (JDecimal 10 2) JNull 5 True) 3) ''u1'' sampleBody))) =
     parseFloat_fixed (toFixed2 (foldl js_add (num 0)
       (map oi_total (orderItems (snd (createOrder (\<lambda>_. None) sampleEnv
          (sampleDb (sampleProduct (JDecimal 10 2) JNull 5 True) 3) ''u1'' sampleBody))))))"
proof -
  let ?d = "sampleDb (sampleProduct (JDecimal 10 2) JNull 5 True) 3"
  let ?r = "createOrder (\<lambda>_. None) sampleEnv ?d ''u1'' sampleBody"
  have "\<not> isl (fst ?r)" by code_simp
  then have run: "?r = (Inr (projr (fst ?r)), snd ?r)"
    by (cases ?r; cases "fst ?r") auto
  have "orderItems ?d = []" by (simp add: sampleDb_def)
  with subtotal_rounds_item_totals [OF run] show ?thesis by auto
qed

text \<open>
  One line of three units at 0.10: the item's total is 0.30000000000000004, the
  order's subtotal is 0.3.
\<close>

theorem subtotal_differs_from_item_totals:
  "map oi_total (orderItems (snd (createOrder (\<lambda>_. None) sampleEnv
       (sampleDb (sampleProduct (JDecimal 10 2) JNull 5 True) 3) ''u1'' sampleBody))) =
     [Finite 5404319552844596 (- 54)]
   \<and> map o_subtotal (orders (snd (createOrder (\<lambda>_. None) sampleEnv
       (sampleDb (sampleProduct (JDecimal 10 2) JNull 5 True) 3) ''u1'' sampleBody))) =
     [Finite 5404319552844595 (- 54)]"
  by code_simp

text \<open>
  C3 (as amended). Let \<open>S\<close> be the running double precision sum of unit price times
  quantity over the cart lines. The preview returns \<open>S\<close> printed with two decimals as
  subtotal; as shipping cost 0 when the unrounded \<open>S\<close> is at least 999 and 50 otherwise;
  as tax \<open>S * 0.18\<close> printed with two decimals; and as total the unrounded
  \<open>S + shippingCost + S * 0.18\<close> printed with two decimals. A created order stores the
  numbers parsed from the same four strings. Each figure is rounded on its own from
  unrounded binary values, so the total need not be the sum of the three returned parts.
\<close>

theorem pricing_of_cart:
  assumes "checkoutSchema b = None"
    and "userCart d userId \<noteq> []"
    and "\<forall>ci \<in> set (userCart d userId). findProduct d (ci_productId ci) \<noteq> None"
  shows "initiateCheckout checkoutSchema d userId b =
           Inr \<lparr>cd_items = findCartItems d userId,
                cd_subtotal = toFixed2 (cartSum (findCartItems d userId)),
                cd_shippingCost =
                  toFixed2 (if js_ge (cartSum (findCartItems d userId)) (num 999)
                            then num 0 else num 50),
                cd_tax = toFixed2 (js_mul (cartSum (findCartItems d userId)) (lit 18 2)),
                cd_total =
                  toFixed2 (js_add
                    (js_add (cartSum (findCartItems d userId))
                       (if js_ge (cartSum (findCartItems d userId)) (num 999)
                        then num 0 else num 50))
                    (js_mul (cartSum (findCartItems d userId)) (lit 18 2))),
                cd_paymentMethod = b_paymentMethod b\<rparr>
       \<and> (\<forall>ord. fst (createOrder createOrderSchema e d userId b) = Inr ord \<longrightarrow>
             o_subtotal ord = parseFloat_fixed (toFixed2 (cartSum (findCartItems d userId)))
           \<and> o_shippingCost ord =
               parseFloat_fixed
                 (toFixed2 (if js_ge (cartSum (findCartItems d userId)) (num 999)
                            then num 0 else num 50))
           \<and> o_tax ord =
               parseFloat_fixed
                 (toFixed2 (js_mul (cartSum (findCartItems d userId)) (lit 18 2)))
           \<and> o_total ord =
               parseFloat_fixed
                 (toFixed2 (js_add
                    (js_add (cartSum (findCartItems d userId))
                       (if js_ge (cartSum (findCartItems d userId)) (num 999)
                        then num 0 else num 50))
                    (js_mul (cartSum (findCartItems d userId)) (lit 18 2)))))"
proof -
  let ?cart = "findCartItems d userId"
  have ne: "length ?cart \<noteq> 0"
    using assms(2) by (simp add: findCartItems_def)
  have present: "\<forall>l \<in> set ?cart. snd l \<noteq> None"
    using assms(3) by (auto simp: findCartItems_def)
  have pv: "previewLoop ?cart (num 0) = Inr (cartSum ?cart)"
    using previewLoop_sum [OF present] by (simp add: cartSum_def)
  have preview: "initiateCheckout checkoutSchema d userId b =
           Inr \<lparr>cd_items = ?cart,
                cd_subtotal = toFixed2 (cartSum ?cart),
                cd_shippingCost = toFixed2 (shippingCostOf (cartSum ?cart)),
                cd_tax = toFixed2 (taxOf (cartSum ?cart)),
                cd_total = toFixed2 (totalOf (cartSum ?cart)),
                cd_paymentMethod = b_paymentMethod b\<rparr>"
    using assms(1) ne pv by (simp add: initiateCheckout_def Let_def)
  have stored: "o_subtotal ord = parseFloat_fixed (toFixed2 (cartSum ?cart))
           \<and> o_shippingCost ord = parseFloat_fixed (toFixed2 (shippingCostOf (cartSum ?cart)))
           \<and> o_tax ord = parseFloat_fixed (toFixed2 (taxOf (cartSum ?cart)))
           \<and> o_total ord = parseFloat_fixed (toFixed2 (totalOf (cartSum ?cart)))"
    if "fst (createOrder createOrderSchema e d userId b) = Inr ord" for ord
  proof -
    from that have "createOrder createOrderSchema e d userId b =
        (Inr ord, snd (createOrder createOrderSchema e d userId b))"
      by (cases "createOrder createOrderSchema e d userId b") simp
    from createOrder_Inr [OF this] obtain v t where
      loop: "subtotalLoop ?cart (num 0) = Value t" and ord: "ord = newOrderOf e userId b v t"
      by blast
    from subtotalLoop_sum [OF loop] have "t = cartSum ?cart"
      by (simp add: cartSum_def)
    with ord show ?thesis by (simp add: newOrderOf_def)
  qed
  from preview stored show ?thesis
    by (simp add: shippingCostOf_def taxOf_def totalOf_def)
qed

theorem pricing_of_cart_witness:
  "initiateCheckout (\<lambda>_. None)
     (sampleDb (sampleProduct (JDecimal 100000 2) JNull 5 True) 1) ''u1'' sampleBody =
     Inr \<lparr>cd_items = findCartItems (sampleDb (sampleProduct (JDecimal 100000 2) JNull 5 True) 1) ''u1'',
          cd_subtotal = Fixed2 False 100000, cd_shippingCost = Fixed2 False 0,
          cd_tax = Fixed2 False 18000, cd_total = Fixed2 False 118000,
          cd_paymentMethod = ''COD''\<rparr>
   \<and> initiateCheckout (\<lambda>_. None)
     (sampleDb (sampleProduct (JDecimal 25000 2) JNull 5 True) 2) ''u1'' sampleBody =
     Inr \<lparr>cd_items = findCartItems (sampleDb (sampleProduct (JDecimal 25000 2) JNull 5 True) 2) ''u1'',
          cd_subtotal = Fixed2 False 50000, cd_shippingCost = Fixed2 False 5000,
          cd_tax = Fixed2 False 9000, cd_total = Fixed2 False 64000,
          cd_paymentMethod = ''COD''\<rparr>
   \<and> o_subtotal (projr (fst (createOrder (\<lambda>_. None) sampleEnv
         (sampleDb (sampleProduct (JDecimal 100000 2) JNull 5 True) 1) ''u1'' sampleBody))) =
       num 1000
   \<and> o_shippingCost (projr (fst (createOrder (\<lambda>_. None) sampleEnv
         (sampleDb (sampleProduct (JDecimal 100000 2) JNull 5 True) 1) ''u1'' sampleBody))) =
       num 0
   \<and> o_tax (projr (fst (createOrder (\<lambda>_. None) sampleEnv
         (sampleDb (sampleProduct (JDecimal 100000 2) JNull 5 True) 1) ''u1'' sampleBody))) =
       num 180
   \<and> o_total (projr (fst (createOrder (\<lambda>_. None) sampleEnv
         (sampleDb (sampleProduct (JDecimal 100000 2) JNull 5 True) 1) ''u1'' sampleBody))) =
       num 1180"
proof -
  let ?d1 = "sampleDb (sampleProduct (JDecimal 100000 2) JNull 5 True) 1"
  let ?d2 = "sampleDb (sampleProduct (JDecimal 25000 2) JNull 5 True) 2"
  let ?r = "createOrder (\<lambda>_. None) sampleEnv ?d1 ''u1'' sampleBody"
  have h: "(\<lambda>_. None) sampleBody = (None :: string option)" by simp
  have c1: "userCart ?d1 ''u1'' \<noteq> []" and c2: "userCart ?d2 ''u1'' \<noteq> []"
    by (simp_all add: userCart_def sampleDb_def)
  have p1: "\<forall>ci \<in> set (userCart ?d1 ''u1''). findProduct ?d1 (ci_productId ci) \<noteq> None"
    and p2: "\<forall>ci \<in> set (userCart ?d2 ''u1''). findProduct ?d2 (ci_productId ci) \<noteq> None"
    by (simp_all add: userCart_def sampleDb_def findProduct_def sampleProduct_def)
  have s1: "cartSum (findCartItems ?d1 ''u1'') = num 1000"
    and s2: "cartSum (findCartItems ?d2 ''u1'') = num 500"
    by code_simp+
  have v1: "toFixed2 (num 1000) = Fixed2 False 100000"
    "js_ge (num 1000) (num 999)"
    "toFixed2 (num 0) = Fixed2 False 0"
    "toFixed2 (js_mul (num 1000) (lit 18 2)) = Fixed2 False 18000"
    "toFixed2 (js_add (js_add (num 1000) (num 0)) (js_mul (num 1000) (lit 18 2))) =
       Fixed2 False 118000"
    by code_simp+
  have v2: "toFixed2 (num 500) = Fixed2 False 50000"
    "\<not> js_ge (num 500) (num 999)"
    "toFixed2 (num 50) = Fixed2 False 5000"
    "toFixed2 (js_mul (num 500) (lit 18 2)) = Fixed2 False 9000"
    "toFixed2 (js_add (js_add (num 500) (num 50)) (js_mul (num 500) (lit 18 2))) =
       Fixed2 False 64000"
    by code_simp+
  have parsed: "parseFloat_fixed (Fixed2 False 100000) = num 1000"
    "parseFloat_fixed (Fixed2 False 0) = num 0"
    "parseFloat_fixed (Fixed2 False 18000) = num 180"
    "parseFloat_fixed (Fixed2 False 118000) = num 1180"
    by code_simp+
  have m: "b_paymentMethod sampleBody = ''COD''" by (simp add: sampleBody_def)
  have "\<not> isl (fst ?r)" by code_simp
  then have ok: "fst ?r = Inr (projr (fst ?r))" by (cases "fst ?r") auto
  note inst = pricing_of_cart [OF h c1 p1, where e = sampleEnv and createOrderSchema = "\<lambda>_. None"]
  from inst have "initiateCheckout (\<lambda>_. None) ?d1 ''u1'' sampleBody =
     Inr \<lparr>cd_items = findCartItems ?d1 ''u1'',
          cd_subtotal = Fixed2 False 100000, cd_shippingCost = Fixed2 False 0,
          cd_tax = Fixed2 False 18000, cd_total = Fixed2 False 118000,
          cd_paymentMethod = ''COD''\<rparr>"
    unfolding s1 by (simp only: v1 m if_True simp_thms)
  moreover from pricing_of_cart [OF h c2 p2]
  have "initiateCheckout (\<lambda>_. None) ?d2 ''u1'' sampleBody =
     Inr \<lparr>cd_items = findCartItems ?d2 ''u1'',
          cd_subtotal = Fixed2 False 50000, cd_shippingCost = Fixed2 False 5000,
          cd_tax = Fixed2 False 9000, cd_total = Fixed2 False 64000,
          cd_paymentMethod = ''COD''\<rparr>"
    unfolding s2 by (simp only: v2 m if_False simp_thms)
  moreover from inst ok
  have "o_subtotal (projr (fst ?r)) = num 1000 \<and> o_shippingCost (projr (fst ?r)) = num 0
      \<and> o_tax (projr (fst ?r)) = num 180 \<and> o_total (projr (fst ?r)) = num 1180"
    unfolding s1 by (simp only: v1 parsed if_True simp_thms)
  ultimately show ?thesis by (intro conjI) blast+
qed

text \<open>
  One unit at 9.25: the preview shows subtotal 9.25, shipping 50.00, tax 1.67 and total
  60.91, while the three parts add up to 60.92 (and the exact 60.915 rounds to 60.92).
\<close>

theorem total_not_sum_of_parts:
  "isl (initiateCheckout (\<lambda>_. None)
          (sampleDb (sampleProduct (JDecimal 925 2) JNull 5 True) 1) ''u1'' sampleBody) = False
   \<and> cd_subtotal (projr (initiateCheckout (\<lambda>_. None)
          (sampleDb (sampleProduct (JDecimal 925 2) JNull 5 True) 1) ''u1'' sampleBody)) =
       Fixed2 False 925
   \<and> cd_shippingCost (projr (initiateCheckout (\<lambda>_. None)
          (sampleDb (sampleProduct (JDecimal 925 2) JNull 5 True) 1) ''u1'' sampleBody)) =
       Fixed2 False 5000
   \<and> cd_tax (projr (initiateCheckout (\<lambda>_. None)
          (sampleDb (sampleProduct (JDecimal 925 2) JNull 5 True) 1) ''u1'' sampleBody)) =
       Fixed2 False 167
   \<and> cd_total (projr (initiateCheckout (\<lambda>_. None)
          (sampleDb (sampleProduct (JDecimal 925 2) JNull 5 True) 1) ''u1'' sampleBody)) =
       Fixed2 False 6091
   \<and> (925 :: int) + 5000 + 167 \<noteq> 6091"
  by code_simp

text \<open>
  C10 (as amended). A sale price that is \<open>null\<close> or the number 0 is falsy, and the unit
  price is then the list price: in the subtotal loop of \<open>createOrder\<close>, in the preview
  loop and in the price of the order item. A sale price read from a decimal column is
  an object, which is truthy whatever its value: it is the unit price, also when it is 0.
\<close>

theorem unitPrice_of_salePrice:
  "(p_salePrice p = JNull \<or> p_salePrice p = JNumber (num 0) \<longrightarrow>
      unitPrice p = parseFloat (p_price p)
    \<and> previewLoop ((item, Some p) # rest) s =
        previewLoop rest (js_add s (js_mul (parseFloat (p_price p)) (num (ci_quantity item))))
    \<and> (p_isActive p \<and> ci_quantity item \<le> p_stock p \<longrightarrow>
         subtotalLoop ((item, Some p) # rest) s =
           subtotalLoop rest
             (js_add s (js_mul (parseFloat (p_price p)) (num (ci_quantity item)))))
    \<and> oi_price (orderItemData oid item p) = parseFloat (p_price p)
    \<and> oi_total (orderItemData oid item p) =
        js_mul (parseFloat (p_price p)) (num (ci_quantity item)))
   \<and> (p_salePrice p = JDecimal n k \<longrightarrow>
      unitPrice p = lit n k \<and> oi_price (orderItemData oid item p) = lit n k)"
proof -
  have z: "num 0 = Finite 0 0" by (simp add: num_def round_double_def)
  have falsy: "unitPrice p = parseFloat (p_price p)"
    if "p_salePrice p = JNull \<or> p_salePrice p = JNumber (num 0)"
    using that by (auto simp: unitPrice_def js_or_def z)
  have dec: "unitPrice p = lit n k" if "p_salePrice p = JDecimal n k"
    using that by (simp add: unitPrice_def js_or_def)
  from falsy dec show ?thesis
    by (auto simp: lineTotal_def orderItemData_def)
qed

theorem unitPrice_of_salePrice_witness:
  "unitPrice (sampleProduct (JDecimal 10000 2) JNull 5 True) = Finite 7036874417766400 (- 46)
   \<and> unitPrice (sampleProduct (JDecimal 10000 2) (JNumber (num 0)) 5 True) =
       Finite 7036874417766400 (- 46)
   \<and> subtotalLoop
        [(\<lparr>ci_userId = ''u1'', ci_productId = ''p1'', ci_quantity = 1\<rparr>,
          Some (sampleProduct (JDecimal 10000 2) (JNumber (num 0)) 5 True))] (num 0) =
       Value (Finite 7036874417766400 (- 46))
   \<and> unitPrice (sampleProduct (JDecimal 10000 2) (JDecimal 7999 2) 5 True) = lit 7999 2"
proof -
  let ?item = "\<lparr>ci_userId = ''u1'', ci_productId = ''p1'', ci_quantity = 1\<rparr>"
  let ?p0 = "sampleProduct (JDecimal 10000 2) (JNumber (num 0)) 5 True"
  have pf: "parseFloat (JDecimal 10000 2) = Finite 7036874417766400 (- 46)"
    and sum: "js_add (num 0) (js_mul (parseFloat (JDecimal 10000 2)) (num 1)) =
                Finite 7036874417766400 (- 46)"
    by code_simp+
  have a: "p_salePrice (sampleProduct (JDecimal 10000 2) JNull 5 True) = JNull
         \<or> p_salePrice (sampleProduct (JDecimal 10000 2) JNull 5 True) = JNumber (num 0)"
    and b: "p_salePrice ?p0 = JNull \<or> p_salePrice ?p0 = JNumber (num 0)"
    and c: "p_salePrice (sampleProduct (JDecimal 10000 2) (JDecimal 7999 2) 5 True) =
              JDecimal 7999 2"
    and pr: "p_price (sampleProduct (JDecimal 10000 2) JNull 5 True) = JDecimal 10000 2"
        "p_price ?p0 = JDecimal 10000 2"
    and ok: "p_isActive ?p0 \<and> ci_quantity ?item \<le> p_stock ?p0"
    and q: "ci_quantity ?item = 1"
    by (simp_all add: sampleProduct_def)
  from unitPrice_of_salePrice [of "sampleProduct (JDecimal 10000 2) JNull 5 True"] a
  have 1: "unitPrice (sampleProduct (JDecimal 10000 2) JNull 5 True) =
             parseFloat (p_price (sampleProduct (JDecimal 10000 2) JNull 5 True))"
    by blast
  from unitPrice_of_salePrice [where p = ?p0 and item = ?item and rest = "[]" and s = "num 0"] b ok
  have 2: "unitPrice ?p0 = parseFloat (p_price ?p0)"
    and 3: "subtotalLoop [(?item, Some ?p0)] (num 0) =
              subtotalLoop []
                (js_add (num 0) (js_mul (parseFloat (p_price ?p0)) (num (ci_quantity ?item))))"
    by blast+
  from unitPrice_of_salePrice
    [where p = "sampleProduct (JDecimal 10000 2) (JDecimal 7999 2) 5 True" and n = 7999 and k = 2] c
  have 4: "unitPrice (sampleProduct (JDecimal 10000 2) (JDecimal 7999 2) 5 True) = lit 7999 2"
    by blast
  from 3 have loop: "subtotalLoop [(?item, Some ?p0)] (num 0) =
                      Value (Finite 7036874417766400 (- 46))"
    by (simp only: pr q sum subtotalLoop.simps)
  from 1 2 loop 4 pr pf show ?thesis by simp
qed

text \<open>
  A product with list price 100.00 and a sale price of 0.00 in a decimal column: the
  unit price of the order item, the order's subtotal and the preview's subtotal are 0.
\<close>

theorem zero_decimal_salePrice_applied:
  "map oi_price (orderItems (snd (createOrder (\<lambda>_. None) sampleEnv
       (sampleDb (sampleProduct (JDecimal 10000 2) (JDecimal 0 2) 5 True) 1) ''u1'' sampleBody))) =
     [Finite 0 0]
   \<and> map o_subtotal (orders (snd (createOrder (\<lambda>_. None) sampleEnv
       (sampleDb (sampleProduct (JDecimal 10000 2) (JDecimal 0 2) 5 True) 1) ''u1'' sampleBody))) =
     [Finite 0 0]
   \<and> cd_subtotal (projr (initiateCheckout (\<lambda>_. None)
       (sampleDb (sampleProduct (JDecimal 10000 2) (JDecimal 0 2) 5 True) 1) ''u1'' sampleBody)) =
     Fixed2 False 0
   \<and> parseFloat (JDecimal 10000 2) = Finite 7036874417766400 (- 46)"
  by code_simp

end
